theory Spec2Isabelle
  imports Complex_Main "HOL-Library.Char_ord" "HOL-Library.List_Lexorder"
begin

section \<open>The learning algorithm of the weekly planner\<close>

text \<open>
  A shallow embedding of the \<^verbatim>\<open>Algorithm\<close> module (the pattern analyzers, the insight
  generators, the routine suggestion generator and \<^verbatim>\<open>analyze\<close>) and of the part of the
  \<^verbatim>\<open>DB\<close> module it calls.

  Conventions of the embedding.
  \<^item> A JavaScript number is a \<open>real\<close>; where the source only ever holds a count or a
    rounded value it is a \<open>nat\<close> or an \<open>int\<close>. Rounding errors of double arithmetic are
    not modelled.
  \<^item> A calendar date, the string \<^verbatim>\<open>YYYY-MM-DD\<close>, is the number of days since
    1970-01-01 (an \<open>int\<close>): comparing two zero-padded ISO strings compares these numbers,
    and \<^verbatim>\<open>new Date(s)\<close> is midnight UTC of that day.
  \<^item> A clock time, the string \<^verbatim>\<open>HH:MM\<close>, is the record \<open>hhmm\<close> of its two numbers;
    a missing or empty time is \<open>None\<close>.
  \<^item> An object used as a dictionary is an association list in the order in which
    \<^verbatim>\<open>Object.entries\<close> enumerates it: insertion order for string keys (task ids,
    category ids, sequence keys), ascending order for integer keys (weekdays, hours).
  \<^item> \<^verbatim>\<open>Array.prototype.sort\<close> is stable; it is modelled by a stable insertion sort that
    is given the comparator of the source.
\<close>

subsection \<open>JavaScript helpers\<close>

text \<open>\<^verbatim>\<open>Math.round\<close>: the nearest integer, a half rounded up.\<close>

definition math_round :: "real \<Rightarrow> int" where
  "math_round x = \<lfloor>x + 1 / 2\<rfloor>"

text \<open>\<^verbatim>\<open>arr.reduce((a, b) => a + b, 0)\<close>.\<close>

definition sum_reduce :: "real list \<Rightarrow> real" where
  "sum_reduce xs = foldl (\<lambda>a b. a + b) 0 xs"

text \<open>\<^verbatim>\<open>xs.sort(cmp)\<close>: \<open>cmp a b \<le> 0\<close> keeps \<open>a\<close> before \<open>b\<close>.\<close>

fun insort_cmp :: "('a \<Rightarrow> 'a \<Rightarrow> real) \<Rightarrow> 'a \<Rightarrow> 'a list \<Rightarrow> 'a list" where
  "insort_cmp cmp x [] = [x]"
| "insort_cmp cmp x (y # ys) =
     (if cmp x y \<le> 0 then x # y # ys else y # insort_cmp cmp x ys)"

definition js_sort :: "('a \<Rightarrow> 'a \<Rightarrow> real) \<Rightarrow> 'a list \<Rightarrow> 'a list" where
  "js_sort cmp xs = foldr (insort_cmp cmp) xs []"

text \<open>
  \<^verbatim>\<open>if (!m[k]) m[k] = d; m[k] = f(m[k])\<close> on an object with string keys: a new key goes
  to the end of the enumeration.
\<close>

fun obj_update :: "'k \<Rightarrow> 'v \<Rightarrow> ('v \<Rightarrow> 'v) \<Rightarrow> ('k \<times> 'v) list \<Rightarrow> ('k \<times> 'v) list" where
  "obj_update k d f [] = [(k, f d)]"
| "obj_update k d f ((k', v) # m) =
     (if k' = k then (k', f v) # m else (k', v) # obj_update k d f m)"

text \<open>The same on an object with integer keys, which are enumerated in ascending order.\<close>

fun num_update :: "nat \<Rightarrow> 'v \<Rightarrow> ('v \<Rightarrow> 'v) \<Rightarrow> (nat \<times> 'v) list \<Rightarrow> (nat \<times> 'v) list" where
  "num_update k d f [] = [(k, f d)]"
| "num_update k d f ((k', v) # m) =
     (if k' = k then (k', f v) # m
      else if k < k' then (k, f d) # (k', v) # m
      else (k', v) # num_update k d f m)"

subsection \<open>Data model\<close>

record task =
  task_id :: string
  task_name :: string
  task_category :: string
  defaultDuration :: nat

record hhmm =
  hh :: nat
  mm :: nat

datatype status = Completed | Skipped

record historyEntry =
  taskId :: string
  date :: int
  startTime :: "hhmm option"
  endTime :: "hhmm option"
  plannedDuration :: nat
  actualDuration :: "nat option"
  status :: status

record scheduled =
  s_date :: int
  s_startTime :: hhmm
  s_duration :: nat

record specialPeriod =
  startDate :: int
  endDate :: int
  categoryId :: string

record periodCategory =
  cat_id :: string
  cat_name :: string

text \<open>
  \<^verbatim>\<open>Math.round(percentDiff)\<close> of a duration pattern. The quotient is taken by the planned
  average, which is zero when every planned duration is zero; the actual average is
  positive then, and JavaScript yields \<^verbatim>\<open>Infinity\<close>.
\<close>

datatype percent = Percent int | Infinity

datatype time_kind = Time | Time_day

record time_pattern =
  tp_id :: string
  tp_type :: time_kind
  tp_taskId :: string
  tp_taskName :: string
  tp_dayOfWeek :: "nat option"
  tp_averageTime :: hhmm
  tp_variance :: real
  tp_sampleSize :: nat
  tp_confidence :: real
  tp_periodCategory :: "string option"
  tp_periodCategoryName :: "string option"

record duration_pattern =
  dp_id :: string
  dp_taskId :: string
  dp_taskName :: string
  averageActual :: int
  averagePlanned :: int
  difference :: int
  percentDifference :: percent
  dp_sampleSize :: nat
  dp_confidence :: real

record preferredDay =
  day :: nat
  pd_count :: nat
  percentage :: real

record frequency_pattern =
  fp_id :: string
  fp_taskId :: string
  fp_taskName :: string
  totalOccurrences :: nat
  uniqueDays :: nat
  timesPerWeek :: real
  preferredDays :: "preferredDay list"
  fp_sampleSize :: nat
  fp_confidence :: real

record sequence_pattern =
  sp_id :: string
  fromTaskId :: string
  fromTaskName :: string
  toTaskId :: string
  toTaskName :: string
  sp_count :: nat
  averageGap :: "int option"
  sp_sampleSize :: nat
  sp_confidence :: real

text \<open>
  The action payload of an insight, and its title and text. The text of the source is
  a template string in Italian; a message keeps the template (one constructor for each)
  and the values interpolated into it.
\<close>

datatype action =
  Suggest_time hhmm
| Adjust_duration int
| Suggest_sequence string string "int option"
| Suggest_better_time nat

datatype insight_type = Info | Pattern | Optimization | Achievement | Insight

datatype message =
  Raccolta_dati nat nat
| Orario_abituale string hhmm
| Pattern_settimanale_giorno "nat option" string hhmm
| Durata_sottostimata string int int
| Durata_sovrastimata string int int int
| Giorni_preferiti string "nat list" int
| Sequenza_abituale string string "int option"
| Orario_migliore string int nat int
| Giorno_migliore string nat int int
| Ottimo_lavoro string int
| Tempi_morti int
| Fascia_piu_produttiva nat nat
| Pattern_settimanale_feriali int
| Pattern_settimanale_weekend int
| Periodi_speciali nat

text \<open>An absent \<^verbatim>\<open>actionable\<close> flag is \<open>False\<close>, an absent task id or action is \<open>None\<close>.\<close>

record insight =
  i_type :: insight_type
  i_message :: message
  i_taskId :: "string option"
  priority :: real
  actionable :: bool
  i_action :: "action option"

subsection \<open>Insights about task durations\<close>

text \<open>\<^verbatim>\<open>Math.abs(pattern.percentDifference) > 20\<close>.\<close>

fun abs_percent_gt :: "percent \<Rightarrow> real \<Rightarrow> bool" where
  "abs_percent_gt (Percent n) c = (\<bar>real_of_int n\<bar> > c)"
| "abs_percent_gt Infinity c = True"

text \<open>\<^verbatim>\<open>Math.min(Math.abs(pattern.percentDifference) / k, cap)\<close>.\<close>

fun min_abs_percent :: "percent \<Rightarrow> real \<Rightarrow> real \<Rightarrow> real" where
  "min_abs_percent (Percent n) k cap = min (\<bar>real_of_int n\<bar> / k) cap"
| "min_abs_percent Infinity k cap = cap"

text \<open>The body of the loop of \<^verbatim>\<open>generateDurationInsights\<close>: what one pattern pushes.\<close>

definition durationInsight :: "duration_pattern \<Rightarrow> insight list" where
  "durationInsight p =
     (if abs_percent_gt (percentDifference p) 20 \<and> dp_sampleSize p \<ge> 5 then
        if difference p > 0 then
          [\<lparr>i_type = Optimization,
            i_message = Durata_sottostimata (dp_taskName p) (averageActual p) (averagePlanned p),
            i_taskId = Some (dp_taskId p),
            priority = min_abs_percent (percentDifference p) 10 8,
            actionable = True,
            i_action = Some (Adjust_duration (averageActual p))\<rparr>]
        else if difference p < - 15 then
          [\<lparr>i_type = Optimization,
            i_message = Durata_sovrastimata (dp_taskName p) (averageActual p) (averagePlanned p)
                          \<bar>difference p\<bar>,
            i_taskId = Some (dp_taskId p),
            priority = min_abs_percent (percentDifference p) 15 6,
            actionable = True,
            i_action = None\<rparr>]
        else []
      else [])"

definition generateDurationInsights :: "duration_pattern list \<Rightarrow> task list \<Rightarrow> insight list" where
  "generateDurationInsights patterns tasks = concat (map durationInsight patterns)"

subsection \<open>Time utilities\<close>

text \<open>
  \<^verbatim>\<open>timeToMinutes\<close>: a missing time counts as midnight; otherwise the two numbers of
  \<^verbatim>\<open>time.split(':').map(Number)\<close> are combined.
\<close>

definition timeToMinutes :: "hhmm option \<Rightarrow> real" where
  "timeToMinutes time =
     (case time of None \<Rightarrow> 0 | Some t \<Rightarrow> real (hh t) * 60 + real (mm t))"

text \<open>
  \<^verbatim>\<open>minutesToTime\<close>, for \<open>minutes \<ge> 0\<close> (every call of the module passes a sum or a
  mean of non-negative numbers): \<^verbatim>\<open>Math.floor(minutes / 60) % 24\<close> hours and
  \<^verbatim>\<open>Math.round(minutes % 60)\<close> minutes, each then padded to two digits.
\<close>

definition minutesToTime :: "real \<Rightarrow> hhmm" where
  "minutesToTime minutes =
     \<lparr>hh = nat (\<lfloor>minutes / 60\<rfloor> mod 24),
      mm = nat (math_round (minutes - 60 * of_int \<lfloor>minutes / 60\<rfloor>))\<rparr>"

definition addMinutesToTime :: "hhmm option \<Rightarrow> real \<Rightarrow> hhmm" where
  "addMinutesToTime time minutes = minutesToTime (timeToMinutes time + minutes)"

definition standardDeviation :: "real list \<Rightarrow> real" where
  "standardDeviation values =
     (if length values < 2 then 0
      else
        let mean = sum_reduce values / real (length values);
            squaredDiffs = map (\<lambda>v. (v - mean) ^ 2) values
        in sqrt (sum_reduce squaredDiffs / real (length values)))"

text \<open>\<^verbatim>\<open>groupBy\<close> is only called with the key \<^verbatim>\<open>dayOfWeek\<close>, a number.\<close>

definition groupBy :: "'a list \<Rightarrow> ('a \<Rightarrow> nat) \<Rightarrow> (nat \<times> 'a list) list" where
  "groupBy array key =
     foldl (\<lambda>result item. num_update (key item) [] (\<lambda>items. items @ [item]) result) [] array"

text \<open>
  \<^verbatim>\<open>new Date(date).getDay()\<close>, with 0 for Sunday; 1970-01-01 was a Thursday. (The
  weekday is the one of the ISO date wherever local time is not behind UTC.)
\<close>

definition getDay :: "int \<Rightarrow> nat" where
  "getDay d = nat ((d + 4) mod 7)"

text \<open>\<^verbatim>\<open>`${n}`\<close> for a number that is a natural number.\<close>

fun num_toString :: "nat \<Rightarrow> string" where
  "num_toString n =
     (if n < 10 then [''0123456789'' ! n]
      else num_toString (n div 10) @ [''0123456789'' ! (n mod 10)])"

declare num_toString.simps [simp del]

text \<open>
  \<^verbatim>\<open>a.localeCompare(b)\<close> on two dates, and on two clock times where a missing time
  was replaced by the empty string: zero-padded strings of equal length compare as
  their numbers do, and the empty string is before every other.
\<close>

definition date_localeCompare :: "int \<Rightarrow> int \<Rightarrow> real" where
  "date_localeCompare a b = (if a < b then - 1 else if a = b then 0 else 1)"

definition hhmm_localeCompare :: "hhmm \<Rightarrow> hhmm \<Rightarrow> real" where
  "hhmm_localeCompare a b =
     (if hh a < hh b \<or> (hh a = hh b \<and> mm a < mm b) then - 1
      else if hh a = hh b \<and> mm a = mm b then 0 else 1)"

fun time_localeCompare :: "hhmm option \<Rightarrow> hhmm option \<Rightarrow> real" where
  "time_localeCompare None None = 0"
| "time_localeCompare None (Some b) = - 1"
| "time_localeCompare (Some a) None = 1"
| "time_localeCompare (Some a) (Some b) = hhmm_localeCompare a b"

text \<open>\<^verbatim>\<open>tasks.find(t => t.id === taskId)\<close>.\<close>

definition find_task :: "task list \<Rightarrow> string \<Rightarrow> task option" where
  "find_task tasks tid = find (\<lambda>t. task_id t = tid) tasks"

subsection \<open>Time-of-day analyzer\<close>

record sample =
  time :: "hhmm option"
  dayOfWeek :: nat

text \<open>The first loop of \<^verbatim>\<open>analyzeTimePatterns\<close>: the samples of each task.\<close>

definition taskTimeMap :: "historyEntry list \<Rightarrow> (string \<times> sample list) list" where
  "taskTimeMap history =
     foldl (\<lambda>m entry.
        if status entry \<noteq> Completed then m
        else obj_update (taskId entry) []
               (\<lambda>times. times @ [\<lparr>time = startTime entry, dayOfWeek = getDay (date entry)\<rparr>]) m)
       [] history"

text \<open>The inner loop, over the weekday groups of one task.\<close>

definition dayTimePattern :: "string \<Rightarrow> task \<Rightarrow> nat \<times> sample list \<Rightarrow> time_pattern list" where
  "dayTimePattern tid task = (\<lambda>(d, dayTimes).
     if length dayTimes \<ge> 2 then
       let dayMinutes = map (\<lambda>t. timeToMinutes (time t)) dayTimes;
           dayAvg = sum_reduce dayMinutes / real (length dayMinutes);
           dayStdDev = standardDeviation dayMinutes
       in if dayStdDev < 45 then
            [\<lparr>tp_id = ''time_'' @ tid @ ''_day'' @ num_toString d,
              tp_type = Time_day,
              tp_taskId = tid,
              tp_taskName = task_name task,
              tp_dayOfWeek = Some d,
              tp_averageTime = minutesToTime dayAvg,
              tp_variance = dayStdDev,
              tp_sampleSize = length dayTimes,
              tp_confidence = min (real (length dayTimes) / 5) 1,
              tp_periodCategory = None,
              tp_periodCategoryName = None\<rparr>]
          else []
     else [])"

text \<open>The outer loop, over the tasks.\<close>

definition taskTimePatterns :: "task list \<Rightarrow> string \<times> sample list \<Rightarrow> time_pattern list" where
  "taskTimePatterns tasks = (\<lambda>(tid, times).
     if length times < 3 then []
     else case find_task tasks tid of
       None \<Rightarrow> []
     | Some task \<Rightarrow>
         let timeMinutes = map (\<lambda>t. timeToMinutes (time t)) times;
             avgMinutes = sum_reduce timeMinutes / real (length timeMinutes);
             stdDev = standardDeviation timeMinutes
         in (if stdDev < 60 then
               [\<lparr>tp_id = ''time_'' @ tid,
                 tp_type = Time,
                 tp_taskId = tid,
                 tp_taskName = task_name task,
                 tp_dayOfWeek = None,
                 tp_averageTime = minutesToTime avgMinutes,
                 tp_variance = stdDev,
                 tp_sampleSize = length times,
                 tp_confidence = min (real (length times) / 10) 1,
                 tp_periodCategory = None,
                 tp_periodCategoryName = None\<rparr>]
             else [])
            @ concat (map (dayTimePattern tid task) (groupBy times dayOfWeek)))"

definition analyzeTimePatterns :: "historyEntry list \<Rightarrow> task list \<Rightarrow> time_pattern list" where
  "analyzeTimePatterns history tasks = concat (map (taskTimePatterns tasks) (taskTimeMap history))"

subsection \<open>Duration analyzer\<close>

record durations =
  planned :: nat
  actual :: nat

text \<open>An entry with no actual duration, or with the duration 0, is skipped.\<close>

definition taskDurationMap :: "historyEntry list \<Rightarrow> (string \<times> durations list) list" where
  "taskDurationMap history =
     foldl (\<lambda>m entry.
        case actualDuration entry of
          None \<Rightarrow> m
        | Some a \<Rightarrow>
            if status entry \<noteq> Completed \<or> a = 0 then m
            else obj_update (taskId entry) []
                   (\<lambda>ds. ds @ [\<lparr>planned = plannedDuration entry, actual = a\<rparr>]) m)
       [] history"

definition taskDurationPattern :: "task list \<Rightarrow> string \<times> durations list \<Rightarrow> duration_pattern list" where
  "taskDurationPattern tasks = (\<lambda>(tid, ds).
     if length ds < 3 then []
     else case find_task tasks tid of
       None \<Rightarrow> []
     | Some task \<Rightarrow>
         let actualAvg = foldl (\<lambda>a b. a + real (actual b)) 0 ds / real (length ds);
             plannedAvg = foldl (\<lambda>a b. a + real (planned b)) 0 ds / real (length ds);
             diff = actualAvg - plannedAvg;
             percentDiff = (diff / plannedAvg) * 100
         in [\<lparr>dp_id = ''duration_'' @ tid,
              dp_taskId = tid,
              dp_taskName = task_name task,
              averageActual = math_round actualAvg,
              averagePlanned = math_round plannedAvg,
              difference = math_round diff,
              percentDifference =
                (if plannedAvg = 0 then Infinity else Percent (math_round percentDiff)),
              dp_sampleSize = length ds,
              dp_confidence = min (real (length ds) / 10) 1\<rparr>])"

definition analyzeDurationPatterns :: "historyEntry list \<Rightarrow> task list \<Rightarrow> duration_pattern list" where
  "analyzeDurationPatterns history tasks =
     concat (map (taskDurationPattern tasks) (taskDurationMap history))"

subsection \<open>Frequency analyzer\<close>

text \<open>
  One entry of \<^verbatim>\<open>taskFrequencyMap\<close>. The set \<^verbatim>\<open>days\<close> is a list without repetition;
  \<^verbatim>\<open>weekdays\<close> has integer keys.
\<close>

record freq =
  f_count :: nat
  days :: "int list"
  weekdays :: "(nat \<times> nat) list"

definition taskFrequencyMap :: "historyEntry list \<Rightarrow> (string \<times> freq) list" where
  "taskFrequencyMap history =
     foldl (\<lambda>m entry.
        if status entry \<noteq> Completed then m
        else obj_update (taskId entry) \<lparr>f_count = 0, days = [], weekdays = []\<rparr>
               (\<lambda>f. \<lparr>f_count = f_count f + 1,
                      days = List.insert (date entry) (days f),
                      weekdays = num_update (getDay (date entry)) 0 (\<lambda>c. c + 1) (weekdays f)\<rparr>) m)
       [] history"

text \<open>
  \<^verbatim>\<open>Math.ceil((maxDate - minDate) / (1000 * 60 * 60 * 24)) || 1\<close>: the two dates are
  midnights, so the quotient is the whole number of days between them.
\<close>

definition totalDays :: "int list \<Rightarrow> int" where
  "totalDays dates =
     (let minDate = Min (set dates); maxDate = Max (set dates)
      in if maxDate - minDate = 0 then 1 else maxDate - minDate)"

definition taskFrequencyPattern ::
  "task list \<Rightarrow> real \<Rightarrow> string \<times> freq \<Rightarrow> frequency_pattern list" where
  "taskFrequencyPattern tasks totalWeeks = (\<lambda>(tid, f).
     case find_task tasks tid of
       None \<Rightarrow> []
     | Some task \<Rightarrow>
         let perWeek = real (f_count f) / totalWeeks;
             preferred =
               map (\<lambda>(d, c). \<lparr>day = d, pd_count = c,
                                percentage = (real c / real (f_count f)) * 100\<rparr>)
                 (take 3 (js_sort (\<lambda>a b. real (snd b) - real (snd a)) (weekdays f)))
         in [\<lparr>fp_id = ''frequency_'' @ tid,
              fp_taskId = tid,
              fp_taskName = task_name task,
              totalOccurrences = f_count f,
              uniqueDays = length (days f),
              timesPerWeek = real_of_int (math_round (perWeek * 10)) / 10,
              preferredDays = preferred,
              fp_sampleSize = f_count f,
              fp_confidence = min (real (f_count f) / 15) 1\<rparr>])"

definition analyzeFrequencyPatterns ::
  "historyEntry list \<Rightarrow> task list \<Rightarrow> frequency_pattern list" where
  "analyzeFrequencyPatterns history tasks =
     (let dates = map date history
      in if length dates < 2 then []
         else
           let totalWeeks = real_of_int (totalDays dates) / 7
           in concat (map (taskFrequencyPattern tasks totalWeeks) (taskFrequencyMap history)))"

subsection \<open>Sequence analyzer\<close>

record seq =
  seq_fromTaskId :: string
  seq_toTaskId :: string
  seq_count :: nat
  avgGap :: "real list"

text \<open>The completed entries, ordered by date and then by start time.\<close>

definition sortedHistory :: "historyEntry list \<Rightarrow> historyEntry list" where
  "sortedHistory history =
     js_sort (\<lambda>a b.
        let dateComp = date_localeCompare (date a) (date b)
        in if dateComp \<noteq> 0 then dateComp else time_localeCompare (startTime a) (startTime b))
       (filter (\<lambda>h. status h = Completed) history)"

text \<open>
  One step of the loop that finds the sequences within a day: the state is
  \<^verbatim>\<open>lastEntry\<close> and \<^verbatim>\<open>sequenceMap\<close>, whose key is \<^verbatim>\<open>`${lastEntry.taskId}_${entry.taskId}`\<close>.
\<close>

definition sequenceStep ::
  "historyEntry option \<times> (string \<times> seq) list \<Rightarrow> historyEntry \<Rightarrow>
   historyEntry option \<times> (string \<times> seq) list" where
  "sequenceStep = (\<lambda>(lastEntry, m) entry.
     (Some entry,
      case lastEntry of
        None \<Rightarrow> m
      | Some l \<Rightarrow>
          if date l = date entry then
            obj_update (taskId l @ ''_'' @ taskId entry)
              \<lparr>seq_fromTaskId = taskId l, seq_toTaskId = taskId entry, seq_count = 0, avgGap = []\<rparr>
              (\<lambda>s. let s' = s\<lparr>seq_count := seq_count s + 1\<rparr>
                    in if endTime l \<noteq> None \<and> startTime entry \<noteq> None then
                         let gap = timeToMinutes (startTime entry) - timeToMinutes (endTime l)
                         in if gap \<ge> 0 \<and> gap < 240 then s'\<lparr>avgGap := avgGap s' @ [gap]\<rparr> else s'
                       else s')
              m
          else m))"

definition sequenceMap :: "historyEntry list \<Rightarrow> (string \<times> seq) list" where
  "sequenceMap history = snd (foldl sequenceStep (None, []) (sortedHistory history))"

text \<open>
  The second loop: \<^verbatim>\<open>avgGap ? Math.round(avgGap) : null\<close> is \<^verbatim>\<open>null\<close> for the mean 0 as
  it is for \<^verbatim>\<open>null\<close>.
\<close>

definition sequencePattern :: "task list \<Rightarrow> string \<times> seq \<Rightarrow> sequence_pattern list" where
  "sequencePattern tasks = (\<lambda>(key, s).
     if seq_count s < 3 then []
     else case (find_task tasks (seq_fromTaskId s), find_task tasks (seq_toTaskId s)) of
       (Some fromTask, Some toTask) \<Rightarrow>
         let mean = (if length (avgGap s) > 0
                     then Some (sum_reduce (avgGap s) / real (length (avgGap s))) else None)
         in [\<lparr>sp_id = ''sequence_'' @ key,
              fromTaskId = seq_fromTaskId s,
              fromTaskName = task_name fromTask,
              toTaskId = seq_toTaskId s,
              toTaskName = task_name toTask,
              sp_count = seq_count s,
              averageGap = (case mean of
                              None \<Rightarrow> None
                            | Some g \<Rightarrow> if g = 0 then None else Some (math_round g)),
              sp_sampleSize = seq_count s,
              sp_confidence = min (real (seq_count s) / 10) 1\<rparr>]
     | _ \<Rightarrow> [])"

definition analyzeSequencePatterns ::
  "historyEntry list \<Rightarrow> task list \<Rightarrow> sequence_pattern list" where
  "analyzeSequencePatterns history tasks =
     take 20 (js_sort (\<lambda>a b. real (sp_count b) - real (sp_count a))
       (concat (map (sequencePattern tasks) (sequenceMap history))))"

subsection \<open>Completion-rate analyzer\<close>

record tally =
  completed :: nat
  skipped :: nat

record taskStat =
  ts_completed :: nat
  ts_skipped :: nat
  byHour :: "(nat \<times> tally) list"
  byDay :: "(nat \<times> tally) list"

text \<open>\<^verbatim>\<open>stats[entry.status]++\<close>.\<close>

definition bump :: "status \<Rightarrow> tally \<Rightarrow> tally" where
  "bump st t = (case st of Completed \<Rightarrow> t\<lparr>completed := completed t + 1\<rparr>
                         | Skipped \<Rightarrow> t\<lparr>skipped := skipped t + 1\<rparr>)"

definition analyzeCompletionPatterns ::
  "historyEntry list \<Rightarrow> task list \<Rightarrow> (string \<times> taskStat) list" where
  "analyzeCompletionPatterns history tasks =
     foldl (\<lambda>taskStats entry.
        obj_update (taskId entry) \<lparr>ts_completed = 0, ts_skipped = 0, byHour = [], byDay = []\<rparr>
          (\<lambda>s. let s1 = (case status entry of
                            Completed \<Rightarrow> s\<lparr>ts_completed := ts_completed s + 1\<rparr>
                          | Skipped \<Rightarrow> s\<lparr>ts_skipped := ts_skipped s + 1\<rparr>);
                    s2 = (case startTime entry of
                            None \<Rightarrow> s1
                          | Some t \<Rightarrow> s1\<lparr>byHour := num_update (hh t) \<lparr>completed = 0, skipped = 0\<rparr>
                                                       (bump (status entry)) (byHour s1)\<rparr>)
                in s2\<lparr>byDay := num_update (getDay (date entry)) \<lparr>completed = 0, skipped = 0\<rparr>
                                   (bump (status entry)) (byDay s2)\<rparr>)
          taskStats)
       [] history"

subsection \<open>Insight generators\<close>

definition timeInsight :: "time_pattern \<Rightarrow> insight list" where
  "timeInsight p =
     (if tp_type p = Time \<and> tp_confidence p > 6 / 10 then
        [\<lparr>i_type = Pattern,
          i_message = Orario_abituale (tp_taskName p) (tp_averageTime p),
          i_taskId = Some (tp_taskId p),
          priority = tp_confidence p * 5,
          actionable = True,
          i_action = Some (Suggest_time (tp_averageTime p))\<rparr>]
      else [])
     @ (if tp_type p = Time_day \<and> tp_confidence p > 7 / 10 then
          [\<lparr>i_type = Pattern,
            i_message = Pattern_settimanale_giorno (tp_dayOfWeek p) (tp_taskName p) (tp_averageTime p),
            i_taskId = Some (tp_taskId p),
            priority = tp_confidence p * 6,
            actionable = True,
            i_action = None\<rparr>]
        else [])"

definition generateTimeInsights :: "time_pattern list \<Rightarrow> task list \<Rightarrow> insight list" where
  "generateTimeInsights patterns tasks = concat (map timeInsight patterns)"

text \<open>
  \<^verbatim>\<open>topDays\<close> is the joined string of the day names; it is empty exactly when no day
  passes the filter.
\<close>

definition frequencyInsight :: "frequency_pattern \<Rightarrow> insight list" where
  "frequencyInsight p =
     (case preferredDays p of
        [] \<Rightarrow> []
      | d0 # _ \<Rightarrow>
          if percentage d0 > 40 then
            let topDays = map day (filter (\<lambda>d. percentage d > 25) (preferredDays p))
            in if topDays \<noteq> [] then
                 [\<lparr>i_type = Pattern,
                   i_message = Giorni_preferiti (fp_taskName p) topDays (math_round (timesPerWeek p)),
                   i_taskId = Some (fp_taskId p),
                   priority = fp_confidence p * 4,
                   actionable = False,
                   i_action = None\<rparr>]
               else []
          else [])"

definition generateFrequencyInsights :: "frequency_pattern list \<Rightarrow> task list \<Rightarrow> insight list" where
  "generateFrequencyInsights patterns tasks = concat (map frequencyInsight patterns)"

text \<open>
  The text of a sequence insight ends in one of three ways, according to
  \<^verbatim>\<open>averageGap\<close> (\<^verbatim>\<open>null\<close>, below 15, or not); the message keeps the gap.
\<close>

definition sequenceInsight :: "sequence_pattern \<Rightarrow> insight" where
  "sequenceInsight s =
     \<lparr>i_type = Pattern,
      i_message = Sequenza_abituale (fromTaskName s) (toTaskName s) (averageGap s),
      i_taskId = None,
      priority = sp_confidence s * 5,
      actionable = True,
      i_action = Some (Suggest_sequence (fromTaskId s) (toTaskId s) (averageGap s))\<rparr>"

definition generateSequenceInsights :: "sequence_pattern list \<Rightarrow> task list \<Rightarrow> insight list" where
  "generateSequenceInsights patterns tasks =
     map sequenceInsight (take 3 (filter (\<lambda>p. sp_confidence p > 1 / 2) patterns))"

text \<open>
  The two searches of \<^verbatim>\<open>generateCompletionInsights\<close> for the best hour and the best
  day: the state is the pair of \<^verbatim>\<open>bestHour\<close> and \<^verbatim>\<open>bestRate\<close>.
\<close>

definition bestBucket :: "(nat \<times> tally) list \<Rightarrow> nat option \<times> real" where
  "bestBucket buckets =
     foldl (\<lambda>(best, bestRate) (k, t).
        let total = completed t + skipped t
        in if total \<ge> 2 then
             let rate = real (completed t) / real total
             in if rate > bestRate then (Some k, rate) else (best, bestRate)
           else (best, bestRate))
       (None, 0) buckets"

definition completionInsight :: "task list \<Rightarrow> string \<times> taskStat \<Rightarrow> insight list" where
  "completionInsight tasks = (\<lambda>(tid, stats).
     let total = ts_completed stats + ts_skipped stats
     in if total < 5 then []
        else case find_task tasks tid of
          None \<Rightarrow> []
        | Some task \<Rightarrow>
            let completionRate = real (ts_completed stats) / real total
            in (if completionRate < 1 / 2 \<and> total \<ge> 8 then
                  (case bestBucket (byHour stats) of
                     (Some bestHour, bestRate) \<Rightarrow>
                       if bestRate > completionRate + 2 / 10 then
                         [\<lparr>i_type = Optimization,
                           i_message = Orario_migliore (task_name task)
                             (math_round (completionRate * 100)) bestHour (math_round (bestRate * 100)),
                           i_taskId = Some tid,
                           priority = 7,
                           actionable = True,
                           i_action = Some (Suggest_better_time bestHour)\<rparr>]
                       else []
                   | (None, _) \<Rightarrow> [])
                  @ (case bestBucket (byDay stats) of
                       (Some bestDay, bestDayRate) \<Rightarrow>
                         if bestDayRate > completionRate + 25 / 100 then
                           [\<lparr>i_type = Optimization,
                             i_message = Giorno_migliore (task_name task) bestDay
                               (math_round (bestDayRate * 100)) (math_round (completionRate * 100)),
                             i_taskId = Some tid,
                             priority = 6,
                             actionable = False,
                             i_action = None\<rparr>]
                         else []
                     | (None, _) \<Rightarrow> [])
                else [])
               @ (if completionRate > 9 / 10 \<and> total \<ge> 10 then
                    [\<lparr>i_type = Achievement,
                      i_message = Ottimo_lavoro (task_name task) (math_round (completionRate * 100)),
                      i_taskId = Some tid,
                      priority = 3,
                      actionable = False,
                      i_action = None\<rparr>]
                  else []))"

definition generateCompletionInsights ::
  "(string \<times> taskStat) list \<Rightarrow> task list \<Rightarrow> insight list" where
  "generateCompletionInsights completionStats tasks =
     concat (map (completionInsight tasks) completionStats)"

subsection \<open>General optimization insights\<close>

text \<open>
  \<^verbatim>\<open>analyzeScheduleGaps\<close>: the items of each date (the key is the date string), sorted by
  start time; the gaps between consecutive items that are positive and below 480.
\<close>

definition gapsByDay :: "scheduled list \<Rightarrow> (int \<times> scheduled list) list" where
  "gapsByDay schedule =
     foldl (\<lambda>m item. obj_update (s_date item) [] (\<lambda>items. items @ [item]) m) [] schedule"

definition dayGaps :: "scheduled list \<Rightarrow> real list" where
  "dayGaps items =
     (let sorted = js_sort (\<lambda>a b. hhmm_localeCompare (s_startTime a) (s_startTime b)) items
      in concat (map (\<lambda>(prev, cur).
           let prevEnd = addMinutesToTime (Some (s_startTime prev)) (real (s_duration prev));
               gap = timeToMinutes (Some (s_startTime cur)) - timeToMinutes (Some prevEnd)
           in if gap > 0 \<and> gap < 480 then [gap] else [])
         (zip sorted (tl sorted))))"

record gapAnalysis =
  ga_averageGap :: real
  totalGaps :: nat

definition analyzeScheduleGaps :: "scheduled list \<Rightarrow> gapAnalysis" where
  "analyzeScheduleGaps schedule =
     (let gaps = concat (map (\<lambda>(d, items). dayGaps items) (gapsByDay schedule))
      in \<lparr>ga_averageGap = (if length gaps > 0 then sum_reduce gaps / real (length gaps) else 0),
          totalGaps = length gaps\<rparr>)"

record productivity =
  bestHour :: "nat option"
  hourStats :: "(nat \<times> nat) list"

definition analyzeProductivityByHour :: "historyEntry list \<Rightarrow> productivity" where
  "analyzeProductivityByHour history =
     (let stats = foldl (\<lambda>m entry.
                     case startTime entry of
                       None \<Rightarrow> m
                     | Some t \<Rightarrow> if status entry \<noteq> Completed then m
                                else num_update (hh t) 0 (\<lambda>c. c + 1) m)
                   [] history;
          (best, maxCount) = foldl (\<lambda>(best, maxCount) (h, c).
                     if c > maxCount then (Some h, c) else (best, maxCount))
                   (None, 0) stats
      in \<lparr>bestHour = (if maxCount \<ge> 5 then best else None), hourStats = stats\<rparr>)"

record weekAnalysis =
  significant :: bool
  wa_message :: message

definition analyzeWeekdayVsWeekend :: "historyEntry list \<Rightarrow> weekAnalysis" where
  "analyzeWeekdayVsWeekend history =
     (let weekend = filter (\<lambda>e. getDay (date e) = 0 \<or> getDay (date e) = 6) history;
          weekday = filter (\<lambda>e. \<not> (getDay (date e) = 0 \<or> getDay (date e) = 6)) history;
          weekendTotal = length weekend;
          weekendCompleted = length (filter (\<lambda>e. status e = Completed) weekend);
          weekdayTotal = length weekday;
          weekdayCompleted = length (filter (\<lambda>e. status e = Completed) weekday);
          weekdayRate = (if weekdayTotal > 0 then real weekdayCompleted / real weekdayTotal else 0);
          weekendRate = (if weekendTotal > 0 then real weekendCompleted / real weekendTotal else 0);
          diff = \<bar>weekdayRate - weekendRate\<bar>
      in \<lparr>significant = (diff > 15 / 100 \<and> weekdayTotal \<ge> 10 \<and> weekendTotal \<ge> 5),
          wa_message = (if weekdayRate > weekendRate
                        then Pattern_settimanale_feriali (math_round ((weekdayRate - weekendRate) * 100))
                        else Pattern_settimanale_weekend (math_round ((weekendRate - weekdayRate) * 100)))\<rparr>)"

definition generateOptimizationInsights ::
  "historyEntry list \<Rightarrow> scheduled list \<Rightarrow> task list \<Rightarrow> insight list" where
  "generateOptimizationInsights history schedule tasks =
     (let gaps = analyzeScheduleGaps schedule;
          productivityByHour = analyzeProductivityByHour history;
          week = analyzeWeekdayVsWeekend history
      in (if ga_averageGap gaps > 45 then
            [\<lparr>i_type = Optimization,
              i_message = Tempi_morti (math_round (ga_averageGap gaps)),
              i_taskId = None, priority = 5, actionable = False, i_action = None\<rparr>]
          else [])
         @ (case bestHour productivityByHour of
              None \<Rightarrow> []
            | Some h \<Rightarrow>
                [\<lparr>i_type = Insight,
                  i_message = Fascia_piu_produttiva h (h + 2),
                  i_taskId = None, priority = 6, actionable = False, i_action = None\<rparr>])
         @ (if significant week then
              [\<lparr>i_type = Insight,
                i_message = wa_message week,
                i_taskId = None, priority = 4, actionable = False, i_action = None\<rparr>]
            else []))"

subsection \<open>The stores of the database\<close>

text \<open>
  A persisted pattern: one of the four shapes the analyzers build, and the time stamp
  \<^verbatim>\<open>updatedAt\<close> that \<^verbatim>\<open>savePattern\<close> writes (milliseconds; absent before the first save).
\<close>

datatype pattern_body =
  TimeP time_pattern
| DurationP duration_pattern
| FrequencyP frequency_pattern
| SequenceP sequence_pattern

record pattern =
  body :: pattern_body
  updatedAt :: "nat option"

fun body_id :: "pattern_body \<Rightarrow> string" where
  "body_id (TimeP p) = tp_id p"
| "body_id (DurationP p) = dp_id p"
| "body_id (FrequencyP p) = fp_id p"
| "body_id (SequenceP p) = sp_id p"

definition pattern_id :: "pattern \<Rightarrow> string" where
  "pattern_id p = body_id (body p)"

text \<open>
  The object stores the algorithm reads, each as the list \<^verbatim>\<open>getAll\<close> returns, and the
  two settings. The pattern store has the key path \<^verbatim>\<open>id\<close>: its list is in key order.
\<close>

record db =
  db_tasks :: "task list"
  db_history :: "historyEntry list"
  db_schedule :: "scheduled list"
  db_patterns :: "pattern list"
  db_specialPeriods :: "specialPeriod list"
  db_periodCategories :: "periodCategory list"

text \<open>\<^verbatim>\<open>store.put\<close> on the pattern store: the record with the same key is replaced.\<close>

fun put_pattern :: "pattern \<Rightarrow> pattern list \<Rightarrow> pattern list" where
  "put_pattern p [] = [p]"
| "put_pattern p (q # qs) =
     (if pattern_id q = pattern_id p then p # qs
      else if pattern_id p < pattern_id q then p # q # qs
      else q # put_pattern p qs)"

text \<open>
  \<^verbatim>\<open>savePattern\<close> stamps the pattern with the time \<open>t\<close> the clock shows and puts it; the
  object it was given carries the stamp afterwards. (Every pattern of the analyzers has
  a non-empty id, so no id is generated.)
\<close>

definition savePattern :: "nat \<Rightarrow> pattern \<Rightarrow> db \<Rightarrow> pattern \<times> db" where
  "savePattern t p d =
     (let p' = p\<lparr>updatedAt := Some t\<rparr>
      in (p', d\<lparr>db_patterns := put_pattern p' (db_patterns d)\<rparr>))"

text \<open>
  The loop \<^verbatim>\<open>for (const pattern of allPatterns) await DB.savePattern(pattern)\<close>; \<open>now i\<close>
  is what the clock shows at the \<open>i\<close>-th call.
\<close>

fun savePatterns :: "(nat \<Rightarrow> nat) \<Rightarrow> nat \<Rightarrow> pattern list \<Rightarrow> db \<Rightarrow> pattern list \<times> db" where
  "savePatterns now i [] d = ([], d)"
| "savePatterns now i (p # ps) d =
     (let (p', d') = savePattern (now i) p d;
          (ps', d'') = savePatterns now (Suc i) ps d'
      in (p' # ps', d''))"

subsection \<open>Period segmenter\<close>

record separated =
  normalHistory :: "historyEntry list"
  periodHistory :: "historyEntry list"
  periodBreakdown :: "(string \<times> historyEntry list) list"

definition separateHistoryByPeriods ::
  "historyEntry list \<Rightarrow> specialPeriod list \<Rightarrow> periodCategory list \<Rightarrow> separated" where
  "separateHistoryByPeriods history specialPeriods periodCategories =
     foldl (\<lambda>r entry.
        case find (\<lambda>period. date entry \<ge> startDate period \<and> date entry \<le> endDate period)
               specialPeriods of
          Some foundPeriod \<Rightarrow>
            r\<lparr>periodHistory := periodHistory r @ [entry],
              periodBreakdown := obj_update (categoryId foundPeriod) []
                                   (\<lambda>es. es @ [entry]) (periodBreakdown r)\<rparr>
        | None \<Rightarrow> r\<lparr>normalHistory := normalHistory r @ [entry]\<rparr>)
       \<lparr>normalHistory = [], periodHistory = [], periodBreakdown = []\<rparr> history"

subsection \<open>The orchestrator\<close>

definition MIN_HISTORY_FOR_PATTERNS :: nat where
  "MIN_HISTORY_FOR_PATTERNS = 5"

record analysis =
  insights :: "insight list"
  patterns :: "pattern list"

text \<open>
  The patterns of one period category: the time patterns of its entries, tagged with
  the category and renamed. \<^verbatim>\<open>category?.name || 'Periodo speciale'\<close> also replaces an
  empty name.
\<close>

definition categoryPatterns ::
  "task list \<Rightarrow> periodCategory list \<Rightarrow> string \<times> historyEntry list \<Rightarrow> time_pattern list" where
  "categoryPatterns tasks periodCategories = (\<lambda>(cid, categoryHistory).
     if length categoryHistory \<ge> 3 then
       let categoryName =
             (case find (\<lambda>c. cat_id c = cid) periodCategories of
                None \<Rightarrow> ''Periodo speciale''
              | Some c \<Rightarrow> if cat_name c = [] then ''Periodo speciale'' else cat_name c)
       in map (\<lambda>p. p\<lparr>tp_periodCategory := Some cid,
                      tp_periodCategoryName := Some categoryName,
                      tp_id := tp_id p @ ''_period_'' @ cid\<rparr>)
            (analyzeTimePatterns categoryHistory tasks)
     else [])"

definition unsaved :: "pattern_body \<Rightarrow> pattern" where
  "unsaved b = \<lparr>body = b, updatedAt = None\<rparr>"

definition analyze :: "(nat \<Rightarrow> nat) \<Rightarrow> db \<Rightarrow> analysis \<times> db" where
  "analyze now d =
     (let tasks = db_tasks d;
          history = db_history d;
          schedule = db_schedule d;
          existingPatterns = db_patterns d;
          specialPeriods = db_specialPeriods d;
          periodCategories = db_periodCategories d
      in if length history < MIN_HISTORY_FOR_PATTERNS then
           (\<lparr>insights =
               [\<lparr>i_type = Info,
                 i_message = Raccolta_dati MIN_HISTORY_FOR_PATTERNS (length history),
                 i_taskId = None, priority = 0, actionable = False, i_action = None\<rparr>],
             patterns = existingPatterns\<rparr>, d)
         else
           let sep = separateHistoryByPeriods history specialPeriods periodCategories;
               timePatterns = analyzeTimePatterns (normalHistory sep) tasks;
               durationPatterns = analyzeDurationPatterns (normalHistory sep) tasks;
               frequencyPatterns = analyzeFrequencyPatterns (normalHistory sep) tasks;
               sequencePatterns = analyzeSequencePatterns (normalHistory sep) tasks;
               completionPatterns = analyzeCompletionPatterns (normalHistory sep) tasks;
               found =
                 generateTimeInsights timePatterns tasks
                 @ generateDurationInsights durationPatterns tasks
                 @ generateFrequencyInsights frequencyPatterns tasks
                 @ generateSequenceInsights sequencePatterns tasks
                 @ generateCompletionInsights completionPatterns tasks
                 @ generateOptimizationInsights (normalHistory sep) schedule tasks
                 @ (if length (periodHistory sep) > 0 then
                      [\<lparr>i_type = Info,
                        i_message = Periodi_speciali (length (periodHistory sep)),
                        i_taskId = None, priority = 1, actionable = False, i_action = None\<rparr>]
                    else []);
               periodPatterns =
                 concat (map (categoryPatterns tasks periodCategories) (periodBreakdown sep));
               allPatterns =
                 map (unsaved \<circ> TimeP) timePatterns
                 @ map (unsaved \<circ> DurationP) durationPatterns
                 @ map (unsaved \<circ> FrequencyP) frequencyPatterns
                 @ map (unsaved \<circ> SequenceP) sequencePatterns
                 @ map (unsaved \<circ> TimeP) periodPatterns;
               (saved, d') = savePatterns now 0 allPatterns d
           in (\<lparr>insights = take 10 (js_sort (\<lambda>a b. priority b - priority a) found),
                patterns = saved\<rparr>, d'))"

subsection \<open>Routine suggestion generator\<close>

datatype dayOrDate = DayNumber nat | DateOf int

datatype reason = Di_solito_il nat hhmm | Orario_abituale_alle hhmm

record suggestion =
  sg_taskId :: string
  sg_taskName :: string
  sg_category :: string
  suggestedTime :: hhmm
  duration :: nat
  sg_confidence :: real
  sg_reason :: reason

fun frequencyOf :: "pattern \<Rightarrow> frequency_pattern list" where
  "frequencyOf p = (case body p of FrequencyP f \<Rightarrow> [f] | _ \<Rightarrow> [])"

fun timeOf :: "pattern \<Rightarrow> time_pattern list" where
  "timeOf p = (case body p of TimeP t \<Rightarrow> [t] | _ \<Rightarrow> [])"

text \<open>The body of the loop over the frequency patterns.\<close>

definition routineSuggestion ::
  "task list \<Rightarrow> time_pattern list \<Rightarrow> nat \<Rightarrow> frequency_pattern \<Rightarrow> suggestion list" where
  "routineSuggestion tasks timePatterns dow freqPattern =
     (case find (\<lambda>d. day d = dow) (preferredDays freqPattern) of
        None \<Rightarrow> []
      | Some dayPref \<Rightarrow>
          if percentage dayPref < 20 then []
          else case find_task tasks (fp_taskId freqPattern) of
            None \<Rightarrow> []
          | Some task \<Rightarrow>
              let dayTimePattern =
                    find (\<lambda>p. tp_type p = Time_day \<and> tp_taskId p = fp_taskId freqPattern
                               \<and> tp_dayOfWeek p = Some dow) timePatterns;
                  suggested =
                    (case dayTimePattern of
                       Some p \<Rightarrow> Some (tp_averageTime p)
                     | None \<Rightarrow>
                         (case find (\<lambda>p. tp_type p = Time \<and> tp_taskId p = fp_taskId freqPattern)
                                 timePatterns of
                            Some g \<Rightarrow> Some (tp_averageTime g)
                          | None \<Rightarrow> None))
              in case suggested of
                   None \<Rightarrow> []
                 | Some t \<Rightarrow>
                     [\<lparr>sg_taskId = task_id task,
                       sg_taskName = task_name task,
                       sg_category = task_category task,
                       suggestedTime = t,
                       duration = defaultDuration task,
                       sg_confidence =
                         fp_confidence freqPattern * (if dayTimePattern \<noteq> None then 12 / 10 else 1),
                       sg_reason = (if dayTimePattern \<noteq> None then Di_solito_il dow t
                                    else Orario_abituale_alle t)\<rparr>])"

definition suggestion_cmp :: "suggestion \<Rightarrow> suggestion \<Rightarrow> real" where
  "suggestion_cmp a b =
     (let timeComp = hhmm_localeCompare (suggestedTime a) (suggestedTime b)
      in if timeComp \<noteq> 0 then timeComp else sg_confidence b - sg_confidence a)"

definition generateRoutineSuggestion :: "db \<Rightarrow> dayOrDate \<Rightarrow> task list option \<Rightarrow> suggestion list" where
  "generateRoutineSuggestion d dayOrDate tasks =
     (let stored = db_patterns d;
          tasks' = (case tasks of None \<Rightarrow> db_tasks d | Some ts \<Rightarrow> ts);
          dow = (case dayOrDate of DayNumber n \<Rightarrow> n | DateOf dt \<Rightarrow> getDay dt);
          frequencyPatterns = concat (map frequencyOf stored);
          timePatterns = concat (map timeOf stored)
      in js_sort suggestion_cmp
           (concat (map (routineSuggestion tasks' timePatterns dow) frequencyPatterns)))"

subsection \<open>Example data\<close>

text \<open>Three tasks of a catalog.\<close>

definition t1 :: task where
  "t1 = \<lparr>task_id = ''t1'', task_name = ''Read'', task_category = ''personal'',
          defaultDuration = 30\<rparr>"

definition t2 :: task where
  "t2 = \<lparr>task_id = ''t2'', task_name = ''Run'', task_category = ''health'',
          defaultDuration = 30\<rparr>"

definition t3 :: task where
  "t3 = \<lparr>task_id = ''t3'', task_name = ''Cook'', task_category = ''home'',
          defaultDuration = 30\<rparr>"

text \<open>
  A completed entry of a task on a day, from a start time to an end time, planned and
  done in 30 minutes. Day 19723 is Monday 2024-01-01.
\<close>

definition done_at :: "string \<Rightarrow> int \<Rightarrow> nat \<times> nat \<Rightarrow> nat \<times> nat \<Rightarrow> historyEntry" where
  "done_at tid d s e =
     \<lparr>taskId = tid, date = d, startTime = Some \<lparr>hh = fst s, mm = snd s\<rparr>,
      endTime = Some \<lparr>hh = fst e, mm = snd e\<rparr>, plannedDuration = 30,
      actualDuration = Some 30, status = Completed\<rparr>"

text \<open>Two entries of one task on the same date.\<close>

definition same_day :: "historyEntry list" where
  "same_day = [done_at ''t1'' 19723 (9, 0) (9, 30), done_at ''t1'' 19723 (10, 0) (10, 30)]"

text \<open>Four entries of one task, started at 09:59, 10:00, 09:59 and 10:00.\<close>

definition near_ten :: "historyEntry list" where
  "near_ten =
     [done_at ''t1'' 19723 (9, 59) (10, 29), done_at ''t1'' 19724 (10, 0) (10, 30),
      done_at ''t1'' 19725 (9, 59) (10, 29), done_at ''t1'' 19726 (10, 0) (10, 30)]"

text \<open>
  Three days on which the second task starts when the first ends, and the third task
  starts 1, 2 and 2 minutes after the second ends.
\<close>

definition three_days :: "historyEntry list" where
  "three_days =
     [done_at ''t1'' 19723 (9, 0) (9, 30), done_at ''t2'' 19723 (9, 30) (10, 0),
      done_at ''t3'' 19723 (10, 1) (10, 31),
      done_at ''t1'' 19724 (9, 0) (9, 30), done_at ''t2'' 19724 (9, 30) (10, 0),
      done_at ''t3'' 19724 (10, 2) (10, 32),
      done_at ''t1'' 19725 (9, 0) (9, 30), done_at ''t2'' 19725 (9, 30) (10, 0),
      done_at ''t3'' 19725 (10, 2) (10, 32)]"

text \<open>A task planned at 60 minutes and done in 40 on average, over six samples.\<close>

definition overestimated :: duration_pattern where
  "overestimated =
     \<lparr>dp_id = ''duration_t1'', dp_taskId = ''t1'', dp_taskName = ''Read'',
      averageActual = 40, averagePlanned = 60, difference = - 20,
      percentDifference = Percent (- 33), dp_sampleSize = 6, dp_confidence = 3 / 5\<rparr>"

text \<open>A database with two entries of history and one persisted pattern.\<close>

definition small_db :: db where
  "small_db =
     \<lparr>db_tasks = [t1], db_history = same_day, db_schedule = [],
      db_patterns = [\<lparr>body = DurationP overestimated, updatedAt = Some 1700000000000\<rparr>],
      db_specialPeriods = [], db_periodCategories = []\<rparr>"

text \<open>The three days and the Monday of the week after.\<close>

definition four_days :: "historyEntry list" where
  "four_days = three_days @
     [done_at ''t1'' 19730 (9, 0) (9, 30), done_at ''t2'' 19730 (9, 30) (10, 0),
      done_at ''t3'' 19730 (10, 2) (10, 32)]"

subsection \<open>The transitions of a history, in the words of the specification\<close>

text \<open>
  The specification of the sequence analyzer speaks of the consecutive pairs of the
  sorted entries that share a date (each records a directed transition from the task of
  the first to the task of the second), and of the gap of a pair, which is recorded when
  the end time of the first and the start time of the second are known and the gap is
  not negative and below 240 minutes. These notions are only used to state properties.
\<close>

definition transitions :: "historyEntry list \<Rightarrow> (historyEntry \<times> historyEntry) list" where
  "transitions history =
     filter (\<lambda>t. date (fst t) = date (snd t))
       (zip (sortedHistory history) (tl (sortedHistory history)))"

definition valid_gap :: "historyEntry \<times> historyEntry \<Rightarrow> real list" where
  "valid_gap t =
     (if endTime (fst t) \<noteq> None \<and> startTime (snd t) \<noteq> None
        \<and> timeToMinutes (startTime (snd t)) - timeToMinutes (endTime (fst t)) \<ge> 0
        \<and> timeToMinutes (startTime (snd t)) - timeToMinutes (endTime (fst t)) < 240
      then [timeToMinutes (startTime (snd t)) - timeToMinutes (endTime (fst t))]
      else [])"

text \<open>
  The transitions of a history from one task to another, that is, the observations of
  the directed transition between this pair of tasks, and their recorded gaps.
\<close>

definition transitions_of ::
  "historyEntry list \<Rightarrow> string \<Rightarrow> string \<Rightarrow> (historyEntry \<times> historyEntry) list" where
  "transitions_of history fromId toId =
     filter (\<lambda>t. taskId (fst t) = fromId \<and> taskId (snd t) = toId) (transitions history)"

definition gaps_of :: "historyEntry list \<Rightarrow> string \<Rightarrow> string \<Rightarrow> real list" where
  "gaps_of history fromId toId = concat (map valid_gap (transitions_of history fromId toId))"

subsection \<open>The keys of the dictionary of the sequence analyzer\<close>

text \<open>
  The analyzer files a transition under the key \<^verbatim>\<open>`${lastEntry.taskId}_${entry.taskId}`\<close>.
  The key does not determine the pair of tasks when an id contains an underscore: the
  transition from \<^verbatim>\<open>a_b\<close> to \<^verbatim>\<open>c\<close> and the one from \<^verbatim>\<open>a\<close> to \<^verbatim>\<open>b_c\<close> are both filed under
  \<^verbatim>\<open>a_b_c\<close>. Below are the key of a transition, the transitions of a history that are
  filed under a key, and the condition that transitions of a history between different
  pairs of tasks have different keys.
\<close>

definition key_of :: "historyEntry \<times> historyEntry \<Rightarrow> string" where
  "key_of t = taskId (fst t) @ ''_'' @ taskId (snd t)"

definition filed_under :: "historyEntry list \<Rightarrow> string \<Rightarrow> (historyEntry \<times> historyEntry) list" where
  "filed_under history key = filter (\<lambda>t. key_of t = key) (transitions history)"

definition distinct_keys :: "historyEntry list \<Rightarrow> bool" where
  "distinct_keys history =
     (\<forall>t \<in> set (transitions history). \<forall>u \<in> set (transitions history).
        key_of t = key_of u \<longrightarrow>
          taskId (fst t) = taskId (fst u) \<and> taskId (snd t) = taskId (snd u))"

text \<open>
  Four tasks with the ids \<^verbatim>\<open>a_b\<close>, \<^verbatim>\<open>c\<close>, \<^verbatim>\<open>a\<close> and \<^verbatim>\<open>b_c\<close>. On the first day \<^verbatim>\<open>c\<close> follows
  \<^verbatim>\<open>a_b\<close>, whose end time was not recorded; on the second and on the third day \<^verbatim>\<open>b_c\<close>
  starts 20 minutes after \<^verbatim>\<open>a\<close> ends.
\<close>

definition underscore_tasks :: "task list" where
  "underscore_tasks =
     map (\<lambda>i. \<lparr>task_id = i, task_name = i, task_category = ''other'', defaultDuration = 30\<rparr>)
       [''a_b'', ''c'', ''a'', ''b_c'']"

definition underscore_history :: "historyEntry list" where
  "underscore_history =
     [(done_at ''a_b'' 19723 (9, 0) (9, 30))\<lparr>endTime := None\<rparr>, done_at ''c'' 19723 (9, 30) (10, 0),
      done_at ''a'' 19724 (9, 0) (9, 30), done_at ''b_c'' 19724 (9, 50) (10, 20),
      done_at ''a'' 19725 (9, 0) (9, 30), done_at ''b_c'' 19725 (9, 50) (10, 20)]"

text \<open>Three days on which the end time of the first task was not recorded.\<close>

definition no_end_times :: "historyEntry list" where
  "no_end_times =
     [(done_at ''t1'' 19723 (9, 0) (9, 30))\<lparr>endTime := None\<rparr>, done_at ''t2'' 19723 (9, 30) (10, 0),
      (done_at ''t1'' 19724 (9, 0) (9, 30))\<lparr>endTime := None\<rparr>, done_at ''t2'' 19724 (9, 30) (10, 0),
      (done_at ''t1'' 19725 (9, 0) (9, 30))\<lparr>endTime := None\<rparr>, done_at ''t2'' 19725 (9, 30) (10, 0)]"

text \<open>
  Twenty-six tasks, named by the letters, each done once a day in the order of the
  alphabet on three days: twenty-five transitions, each observed three times.
\<close>

definition letter_tasks :: "task list" where
  "letter_tasks =
     map (\<lambda>c. \<lparr>task_id = [c], task_name = [c], task_category = ''other'', defaultDuration = 1\<rparr>)
       ''abcdefghijklmnopqrstuvwxyz''"

definition letter_day :: "int \<Rightarrow> historyEntry list" where
  "letter_day d =
     map (\<lambda>(i, c). done_at [c] d (10, i) (10, i + 1)) (enumerate 0 ''abcdefghijklmnopqrstuvwxyz'')"

definition letter_history :: "historyEntry list" where
  "letter_history = letter_day 19723 @ letter_day 19724 @ letter_day 19725"

subsection \<open>The samples of a task, in the words of the specification\<close>





subsection \<open>The order of clock times\<close>

text \<open>One clock time is earlier than another. This notion is only used to state properties.\<close>

definition earlier :: "hhmm \<Rightarrow> hhmm \<Rightarrow> bool" where
  "earlier a b = (hh a < hh b \<or> (hh a = hh b \<and> mm a < mm b))"

subsection \<open>Example patterns\<close>

text \<open>
  Persisted patterns of two tasks: both are done on Tuesdays (weekday 2), the first on
  30 percent of its occurrences; the first has a general time pattern at 07:30 only,
  the second a general one at 08:00 and one for Tuesdays at 07:00.
\<close>

definition freq_t1 :: frequency_pattern where
  "freq_t1 =
     \<lparr>fp_id = ''frequency_t1'', fp_taskId = ''t1'', fp_taskName = ''Read'',
      totalOccurrences = 10, uniqueDays = 10, timesPerWeek = 2,
      preferredDays = [\<lparr>day = 4, pd_count = 4, percentage = 40\<rparr>,
                       \<lparr>day = 2, pd_count = 3, percentage = 30\<rparr>,
                       \<lparr>day = 1, pd_count = 3, percentage = 30\<rparr>],
      fp_sampleSize = 10, fp_confidence = 2 / 3\<rparr>"

definition freq_t2 :: frequency_pattern where
  "freq_t2 =
     \<lparr>fp_id = ''frequency_t2'', fp_taskId = ''t2'', fp_taskName = ''Run'',
      totalOccurrences = 5, uniqueDays = 5, timesPerWeek = 1,
      preferredDays = [\<lparr>day = 2, pd_count = 5, percentage = 100\<rparr>],
      fp_sampleSize = 5, fp_confidence = 1 / 3\<rparr>"

definition time_of :: "string \<Rightarrow> string \<Rightarrow> nat \<times> nat \<Rightarrow> time_pattern" where
  "time_of tid name t =
     \<lparr>tp_id = ''time_'' @ tid, tp_type = Time, tp_taskId = tid, tp_taskName = name,
      tp_dayOfWeek = None, tp_averageTime = \<lparr>hh = fst t, mm = snd t\<rparr>, tp_variance = 10,
      tp_sampleSize = 5, tp_confidence = 1 / 2,
      tp_periodCategory = None, tp_periodCategoryName = None\<rparr>"

definition time_t2_tuesday :: time_pattern where
  "time_t2_tuesday =
     \<lparr>tp_id = ''time_t2_day2'', tp_type = Time_day, tp_taskId = ''t2'', tp_taskName = ''Run'',
      tp_dayOfWeek = Some 2, tp_averageTime = \<lparr>hh = 7, mm = 0\<rparr>, tp_variance = 5,
      tp_sampleSize = 5, tp_confidence = 1,
      tp_periodCategory = None, tp_periodCategoryName = None\<rparr>"

definition routine_db :: db where
  "routine_db =
     \<lparr>db_tasks = [t1, t2], db_history = [], db_schedule = [],
      db_patterns =
        [\<lparr>body = FrequencyP freq_t1, updatedAt = Some 1700000000000\<rparr>,
         \<lparr>body = FrequencyP freq_t2, updatedAt = Some 1700000000001\<rparr>,
         \<lparr>body = TimeP (time_of ''t1'' ''Read'' (7, 30)), updatedAt = Some 1700000000002\<rparr>,
         \<lparr>body = TimeP (time_of ''t2'' ''Run'' (8, 0)), updatedAt = Some 1700000000003\<rparr>,
         \<lparr>body = TimeP time_t2_tuesday, updatedAt = Some 1700000000004\<rparr>],
      db_specialPeriods = [], db_periodCategories = []\<rparr>"

text \<open>A database with the history of the four days, three tasks and an empty pattern store.\<close>

definition four_days_db :: db where
  "four_days_db =
     \<lparr>db_tasks = [t1, t2, t3], db_history = four_days, db_schedule = [],
      db_patterns = [], db_specialPeriods = [], db_periodCategories = []\<rparr>"

subsection \<open>The patterns a run saves\<close>

text \<open>
  A name for the list \<^verbatim>\<open>allPatterns\<close> that \<^verbatim>\<open>analyze\<close> builds when the history has at least
  5 entries, as a function of the database. It is only used to state properties.
\<close>

definition allPatterns_of :: "db \<Rightarrow> pattern list" where
  "allPatterns_of d =
     (let tasks = db_tasks d;
          sep = separateHistoryByPeriods (db_history d) (db_specialPeriods d)
                  (db_periodCategories d)
      in map (unsaved \<circ> TimeP) (analyzeTimePatterns (normalHistory sep) tasks)
         @ map (unsaved \<circ> DurationP) (analyzeDurationPatterns (normalHistory sep) tasks)
         @ map (unsaved \<circ> FrequencyP) (analyzeFrequencyPatterns (normalHistory sep) tasks)
         @ map (unsaved \<circ> SequenceP) (analyzeSequencePatterns (normalHistory sep) tasks)
         @ map (unsaved \<circ> TimeP)
             (concat (map (categoryPatterns tasks (db_periodCategories d))
                (periodBreakdown sep))))"

text \<open>In the same way, a name for the list \<^verbatim>\<open>insights\<close> of such a run, before it is sorted.\<close>

definition insights_of :: "db \<Rightarrow> insight list" where
  "insights_of d =
     (let tasks = db_tasks d;
          sep = separateHistoryByPeriods (db_history d) (db_specialPeriods d)
                  (db_periodCategories d)
      in generateTimeInsights (analyzeTimePatterns (normalHistory sep) tasks) tasks
         @ generateDurationInsights (analyzeDurationPatterns (normalHistory sep) tasks) tasks
         @ generateFrequencyInsights (analyzeFrequencyPatterns (normalHistory sep) tasks) tasks
         @ generateSequenceInsights (analyzeSequencePatterns (normalHistory sep) tasks) tasks
         @ generateCompletionInsights (analyzeCompletionPatterns (normalHistory sep) tasks) tasks
         @ generateOptimizationInsights (normalHistory sep) (db_schedule d) tasks
         @ (if length (periodHistory sep) > 0 then
              [\<lparr>i_type = Info,
                i_message = Periodi_speciali (length (periodHistory sep)),
                i_taskId = None, priority = 1, actionable = False, i_action = None\<rparr>]
            else []))"

section \<open>Properties\<close>

subsection \<open>Shared facts\<close>

lemma durationInsight_over:
  assumes "abs_percent_gt (percentDifference p) 20" and "dp_sampleSize p \<ge> 5"
    and "difference p < - 15"
  shows "durationInsight p =
    [\<lparr>i_type = Optimization,
      i_message = Durata_sovrastimata (dp_taskName p) (averageActual p) (averagePlanned p)
                    \<bar>difference p\<bar>,
      i_taskId = Some (dp_taskId p),
      priority = min_abs_percent (percentDifference p) 15 6,
      actionable = True,
      i_action = None\<rparr>]"
  using assms by (simp add: durationInsight_def)

subsection \<open>C1: the insight for an overestimated duration\<close>

text \<open>
  C1, as stated, fails: for the pattern above the only insight emitted is the
  ``overestimate'' one, its priority is \<open>min (33 / 15) 6\<close>, and its \<open>actionable\<close> flag
  is set.
\<close>

theorem C1_counterexample:
  "generateDurationInsights [overestimated] [] =
     [\<lparr>i_type = Optimization,
       i_message = Durata_sovrastimata ''Read'' 40 60 20,
       i_taskId = Some ''t1'',
       priority = 11 / 5,
       actionable = True,
       i_action = None\<rparr>]"
  by (simp add: generateDurationInsights_def durationInsight_def overestimated_def)

text \<open>
  C1, amended: for every duration pattern with \<open>|percentDifference| > 20\<close>,
  \<open>sampleSize \<ge> 5\<close> and \<open>difference < -15\<close>, \<^verbatim>\<open>generateDurationInsights\<close> emits
  the ``overestimate'' insight with priority \<open>min (|percentDifference| / 15) 6\<close>, with
  the \<open>actionable\<close> flag set to true and with no action payload.
\<close>

theorem C1_overestimate_insight:
  assumes "p \<in> set ps"
    and "abs_percent_gt (percentDifference p) 20" and "dp_sampleSize p \<ge> 5"
    and "difference p < - 15"
  shows "\<lparr>i_type = Optimization,
      i_message = Durata_sovrastimata (dp_taskName p) (averageActual p) (averagePlanned p)
                    \<bar>difference p\<bar>,
      i_taskId = Some (dp_taskId p),
      priority = min_abs_percent (percentDifference p) 15 6,
      actionable = True,
      i_action = None\<rparr> \<in> set (generateDurationInsights ps tasks)"
proof -
  have "set (durationInsight p) \<subseteq> set (generateDurationInsights ps tasks)"
    using assms(1) by (auto simp: generateDurationInsights_def)
  then show ?thesis
    using durationInsight_over [OF assms(2-4)] by simp
qed

theorem C1_overestimate_insight_witness:
  "overestimated \<in> set [overestimated]
   \<and> abs_percent_gt (percentDifference overestimated) 20
   \<and> dp_sampleSize overestimated \<ge> 5
   \<and> difference overestimated < - 15
   \<and> \<lparr>i_type = Optimization,
       i_message = Durata_sovrastimata ''Read'' 40 60 20,
       i_taskId = Some ''t1'',
       priority = 11 / 5,
       actionable = True,
       i_action = None\<rparr> \<in> set (generateDurationInsights [overestimated] [])"
  using C1_overestimate_insight [of overestimated "[overestimated]" "[]"]
  by (simp add: overestimated_def)

lemma sqrt_less_square: "0 < c \<Longrightarrow> sqrt x < c \<longleftrightarrow> x < c ^ 2"
  by (metis real_sqrt_less_iff real_sqrt_abs abs_of_pos)

subsection \<open>C2: the gate of the frequency analyzer\<close>

text \<open>
  C2, as stated, fails: the two entries of \<open>same_day\<close> share one date, and the analyzer
  emits a frequency pattern for their task, over a span of one day.
\<close>

theorem C2_counterexample:
  "map date same_day = [19723, 19723]
   \<and> analyzeFrequencyPatterns same_day [t1] =
       [\<lparr>fp_id = ''frequency_t1'', fp_taskId = ''t1'', fp_taskName = ''Read'',
         totalOccurrences = 2, uniqueDays = 1, timesPerWeek = 14,
         preferredDays = [\<lparr>day = 1, pd_count = 2, percentage = 100\<rparr>],
         fp_sampleSize = 2, fp_confidence = 2 / 15\<rparr>]"
  by (simp add: analyzeFrequencyPatterns_def same_day_def done_at_def t1_def totalDays_def
      taskFrequencyMap_def taskFrequencyPattern_def find_task_def getDay_def js_sort_def
      math_round_def)

text \<open>
  C2, amended: \<^verbatim>\<open>analyzeFrequencyPatterns\<close> returns an empty pattern list whenever the
  history contains fewer than 2 entries; a history of two or more entries that all
  share the same date is analyzed over a span of one day, that is, a seventh of a week.
\<close>

theorem C2_fewer_than_two_entries:
  "(length history < 2 \<longrightarrow> analyzeFrequencyPatterns history tasks = [])
   \<and> (length history \<ge> 2 \<and> (\<forall>e \<in> set history. date e = d) \<longrightarrow>
        analyzeFrequencyPatterns history tasks =
          concat (map (taskFrequencyPattern tasks (1 / 7)) (taskFrequencyMap history)))"
proof (intro conjI impI)
  assume "length history < 2"
  then show "analyzeFrequencyPatterns history tasks = []"
    by (simp add: analyzeFrequencyPatterns_def)
next
  assume a: "length history \<ge> 2 \<and> (\<forall>e \<in> set history. date e = d)"
  then have "set (map date history) = {d}" by (cases history) auto
  then have "totalDays (map date history) = 1"
    by (simp add: totalDays_def)
  with a show "analyzeFrequencyPatterns history tasks =
      concat (map (taskFrequencyPattern tasks (1 / 7)) (taskFrequencyMap history))"
    by (simp add: analyzeFrequencyPatterns_def)
qed

theorem C2_fewer_than_two_entries_witness:
  "length [done_at ''t1'' 19723 (9, 0) (9, 30)] < 2
   \<and> analyzeFrequencyPatterns [done_at ''t1'' 19723 (9, 0) (9, 30)] [t1] = []
   \<and> length same_day \<ge> 2
   \<and> date (same_day ! 0) = 19723 \<and> date (same_day ! 1) = 19723
   \<and> analyzeFrequencyPatterns same_day [t1] =
       concat (map (taskFrequencyPattern [t1] (1 / 7)) (taskFrequencyMap same_day))"
  using C2_fewer_than_two_entries [of "[done_at ''t1'' 19723 (9, 0) (9, 30)]" "[t1]" 19723]
    C2_fewer_than_two_entries [of same_day "[t1]" 19723]
  by (simp add: same_day_def done_at_def)

subsection \<open>C4: the gate of the orchestrator\<close>

text \<open>
  C4: with fewer than 5 entries of history, \<^verbatim>\<open>analyze\<close> returns exactly one insight, of
  type \<open>info\<close>, and the persisted patterns as they are; the database is left as it was
  (no analyzer has run and no pattern was saved).
\<close>

theorem C4_gate:
  assumes "length (db_history d) < 5"
  shows "analyze now d =
    (\<lparr>insights =
        [\<lparr>i_type = Info, i_message = Raccolta_dati 5 (length (db_history d)),
          i_taskId = None, priority = 0, actionable = False, i_action = None\<rparr>],
      patterns = db_patterns d\<rparr>, d)"
  using assms by (simp add: analyze_def MIN_HISTORY_FOR_PATTERNS_def)

theorem C4_gate_witness:
  "length (db_history small_db) < 5
   \<and> analyze (\<lambda>i. 1700000000500 + i) small_db =
      (\<lparr>insights =
          [\<lparr>i_type = Info, i_message = Raccolta_dati 5 2,
            i_taskId = None, priority = 0, actionable = False, i_action = None\<rparr>],
        patterns = [\<lparr>body = DurationP overestimated, updatedAt = Some 1700000000000\<rparr>]\<rparr>,
       small_db)"
  using C4_gate [of small_db "\<lambda>i. 1700000000500 + i"]
  by (simp add: small_db_def same_day_def)

subsection \<open>C10: the minutes of an average time\<close>

text \<open>
  C10 fails on the code: the mean of the four start times of \<open>near_ten\<close> is 599.5
  minutes, \<^verbatim>\<open>Math.round(599.5 % 60)\<close> is 60, and the time pattern emitted has the average
  time \<^verbatim>\<open>09:60\<close>.
\<close>

theorem C10_minute_sixty:
  "minutesToTime (1199 / 2) = \<lparr>hh = 9, mm = 60\<rparr>
   \<and> analyzeTimePatterns near_ten [t1] =
       [\<lparr>tp_id = ''time_t1'', tp_type = Time, tp_taskId = ''t1'', tp_taskName = ''Read'',
         tp_dayOfWeek = None, tp_averageTime = \<lparr>hh = 9, mm = 60\<rparr>, tp_variance = 1 / 2,
         tp_sampleSize = 4, tp_confidence = 2 / 5,
         tp_periodCategory = None, tp_periodCategoryName = None\<rparr>]"
  by (simp add: analyzeTimePatterns_def near_ten_def done_at_def t1_def taskTimeMap_def
      taskTimePatterns_def dayTimePattern_def find_task_def getDay_def groupBy_def
      standardDeviation_def sum_reduce_def timeToMinutes_def minutesToTime_def math_round_def
      sqrt_less_square Let_def)

subsection \<open>Sorting with a comparator\<close>

lemma set_insort_cmp: "set (insort_cmp cmp x xs) = insert x (set xs)"
  by (induction xs) auto

lemma length_insort_cmp: "length (insort_cmp cmp x xs) = Suc (length xs)"
  by (induction xs) auto

lemma set_js_sort: "set (js_sort cmp xs) = set xs"
  by (induction xs) (simp_all add: js_sort_def set_insort_cmp)

lemma length_js_sort: "length (js_sort cmp xs) = length xs"
  by (induction xs) (simp_all add: js_sort_def length_insort_cmp)

lemma sorted_insort_cmp:
  assumes total: "\<And>a b. cmp a b \<le> 0 \<or> cmp b a \<le> 0"
    and trans: "\<And>a b c. cmp a b \<le> 0 \<Longrightarrow> cmp b c \<le> 0 \<Longrightarrow> cmp a c \<le> 0"
    and "sorted_wrt (\<lambda>a b. cmp a b \<le> 0) xs"
  shows "sorted_wrt (\<lambda>a b. cmp a b \<le> 0) (insort_cmp cmp x xs)"
  using assms(3)
proof (induction xs)
  case Nil
  then show ?case by simp
next
  case (Cons y ys)
  show ?case
  proof (cases "cmp x y \<le> 0")
    case True
    then have "\<forall>z \<in> set ys. cmp x z \<le> 0"
      using Cons.prems trans by auto
    with True Cons.prems show ?thesis by simp
  next
    case False
    then have "cmp y x \<le> 0" using total by blast
    with False Cons show ?thesis
      by (auto simp: set_insort_cmp)
  qed
qed

lemma sorted_js_sort:
  assumes "\<And>a b. cmp a b \<le> 0 \<or> cmp b a \<le> 0"
    and "\<And>a b c. cmp a b \<le> 0 \<Longrightarrow> cmp b c \<le> 0 \<Longrightarrow> cmp a c \<le> 0"
  shows "sorted_wrt (\<lambda>a b. cmp a b \<le> 0) (js_sort cmp xs)"
proof (induction xs)
  case Nil
  then show ?case by (simp add: js_sort_def)
next
  case (Cons x xs)
  have "js_sort cmp (x # xs) = insort_cmp cmp x (js_sort cmp xs)"
    by (simp add: js_sort_def)
  with Cons sorted_insort_cmp [of cmp, OF assms] show ?case by simp
qed

lemma sum_reduce_sum_list: "sum_reduce xs = sum_list xs"
proof -
  have "foldl (\<lambda>a b. a + b) a xs = a + sum_list xs" for a :: real
    by (induction xs arbitrary: a) simp_all
  then show ?thesis by (simp add: sum_reduce_def)
qed

subsection \<open>The confidence of each kind of pattern\<close>

lemma time_confidence:
  assumes "p \<in> set (analyzeTimePatterns history tasks)"
  shows "tp_confidence p = min (real (tp_sampleSize p) / (if tp_type p = Time then 10 else 5)) 1"
proof -
  from assms obtain tid times where "p \<in> set (taskTimePatterns tasks (tid, times))"
    by (auto simp: analyzeTimePatterns_def)
  then show ?thesis
    by (auto simp: taskTimePatterns_def dayTimePattern_def Let_def
        split: if_splits option.splits)
qed

lemma duration_confidence:
  assumes "p \<in> set (analyzeDurationPatterns history tasks)"
  shows "dp_confidence p = min (real (dp_sampleSize p) / 10) 1"
proof -
  from assms obtain tid ds where "p \<in> set (taskDurationPattern tasks (tid, ds))"
    by (auto simp: analyzeDurationPatterns_def)
  then show ?thesis
    by (auto simp: taskDurationPattern_def Let_def split: if_splits option.splits)
qed

lemma frequency_confidence:
  assumes "p \<in> set (analyzeFrequencyPatterns history tasks)"
  shows "fp_confidence p = min (real (fp_sampleSize p) / 15) 1"
proof -
  from assms obtain w tid f where "p \<in> set (taskFrequencyPattern tasks w (tid, f))"
    by (auto simp: analyzeFrequencyPatterns_def Let_def split: if_splits)
  then show ?thesis
    by (auto simp: taskFrequencyPattern_def Let_def split: option.splits)
qed

lemma sequence_emitted:
  assumes "p \<in> set (analyzeSequencePatterns history tasks)"
  shows "\<exists>key s. (key, s) \<in> set (sequenceMap history) \<and> p \<in> set (sequencePattern tasks (key, s))"
proof -
  from assms have "p \<in> set (concat (map (sequencePattern tasks) (sequenceMap history)))"
    using set_take_subset set_js_sort unfolding analyzeSequencePatterns_def by fastforce
  then show ?thesis by auto
qed

lemma sequence_confidence:
  assumes "p \<in> set (analyzeSequencePatterns history tasks)"
  shows "sp_confidence p = min (real (sp_sampleSize p) / 10) 1"
proof -
  from sequence_emitted [OF assms] obtain key s
    where "p \<in> set (sequencePattern tasks (key, s))" by blast
  then show ?thesis
    by (auto simp: sequencePattern_def Let_def split: if_splits option.splits)
qed

lemma category_confidence:
  assumes "p \<in> set (categoryPatterns tasks cats (cid, categoryHistory))"
  shows "tp_confidence p = min (real (tp_sampleSize p) / (if tp_type p = Time then 10 else 5)) 1"
proof -
  from assms obtain q where q: "q \<in> set (analyzeTimePatterns categoryHistory tasks)"
    and p: "p = q\<lparr>tp_periodCategory := Some cid,
      tp_periodCategoryName := Some (case find (\<lambda>c. cat_id c = cid) cats of
                None \<Rightarrow> ''Periodo speciale''
              | Some c \<Rightarrow> if cat_name c = [] then ''Periodo speciale'' else cat_name c),
      tp_id := tp_id q @ ''_period_'' @ cid\<rparr>"
    by (auto simp: categoryPatterns_def Let_def split: if_splits)
  from time_confidence [OF q] p show ?thesis by simp
qed

lemma min_ratio_bounds: "0 \<le> min (real n / k) 1 \<and> min (real n / k) 1 \<le> 1" if "0 < k"
  using that by (simp add: min_def)

lemmas eval_defs =
  done_at_def t1_def t2_def t3_def find_task_def getDay_def groupBy_def
  standardDeviation_def sum_reduce_def timeToMinutes_def minutesToTime_def math_round_def
  sqrt_less_square js_sort_def Let_def num_toString.simps power2_eq_square
  date_localeCompare_def hhmm_localeCompare_def

lemmas time_defs =
  analyzeTimePatterns_def taskTimeMap_def taskTimePatterns_def dayTimePattern_def

lemmas duration_defs =
  analyzeDurationPatterns_def taskDurationMap_def taskDurationPattern_def

lemmas frequency_defs =
  analyzeFrequencyPatterns_def taskFrequencyMap_def taskFrequencyPattern_def totalDays_def

lemmas sequence_defs =
  analyzeSequencePatterns_def sequenceMap_def sortedHistory_def sequenceStep_def
  sequencePattern_def

subsection \<open>C5: the confidence of every emitted pattern\<close>

text \<open>
  C5: for every history and every catalog, each pattern the analyzers emit has the
  confidence \<open>min (sampleSize / k) 1\<close>, with \<open>k = 10\<close> for \<open>time\<close>, 5 for \<open>time_day\<close>,
  10 for \<open>duration\<close>, 15 for \<open>frequency\<close> and 10 for \<open>sequence\<close>, a number between 0
  and 1; so has each pattern of the re-runs of the time analyzer on the entries of a
  period category.
\<close>

theorem C5_confidence:
  "(\<forall>p \<in> set (analyzeTimePatterns history tasks).
      tp_confidence p = min (real (tp_sampleSize p) / (if tp_type p = Time then 10 else 5)) 1
      \<and> 0 \<le> tp_confidence p \<and> tp_confidence p \<le> 1)
   \<and> (\<forall>p \<in> set (analyzeDurationPatterns history tasks).
      dp_confidence p = min (real (dp_sampleSize p) / 10) 1
      \<and> 0 \<le> dp_confidence p \<and> dp_confidence p \<le> 1)
   \<and> (\<forall>p \<in> set (analyzeFrequencyPatterns history tasks).
      fp_confidence p = min (real (fp_sampleSize p) / 15) 1
      \<and> 0 \<le> fp_confidence p \<and> fp_confidence p \<le> 1)
   \<and> (\<forall>p \<in> set (analyzeSequencePatterns history tasks).
      sp_confidence p = min (real (sp_sampleSize p) / 10) 1
      \<and> 0 \<le> sp_confidence p \<and> sp_confidence p \<le> 1)
   \<and> (\<forall>p \<in> set (concat (map (categoryPatterns tasks cats) breakdown)).
      tp_confidence p = min (real (tp_sampleSize p) / (if tp_type p = Time then 10 else 5)) 1
      \<and> 0 \<le> tp_confidence p \<and> tp_confidence p \<le> 1)"
proof (intro conjI ballI)
  fix p assume "p \<in> set (analyzeTimePatterns history tasks)"
  from time_confidence [OF this]
  show "tp_confidence p = min (real (tp_sampleSize p) / (if tp_type p = Time then 10 else 5)) 1"
    and "0 \<le> tp_confidence p" and "tp_confidence p \<le> 1"
    by (simp_all add: min_def)
next
  fix p assume "p \<in> set (analyzeDurationPatterns history tasks)"
  from duration_confidence [OF this]
  show "dp_confidence p = min (real (dp_sampleSize p) / 10) 1"
    and "0 \<le> dp_confidence p" and "dp_confidence p \<le> 1"
    by (simp_all add: min_def)
next
  fix p assume "p \<in> set (analyzeFrequencyPatterns history tasks)"
  from frequency_confidence [OF this]
  show "fp_confidence p = min (real (fp_sampleSize p) / 15) 1"
    and "0 \<le> fp_confidence p" and "fp_confidence p \<le> 1"
    by (simp_all add: min_def)
next
  fix p assume "p \<in> set (analyzeSequencePatterns history tasks)"
  from sequence_confidence [OF this]
  show "sp_confidence p = min (real (sp_sampleSize p) / 10) 1"
    and "0 \<le> sp_confidence p" and "sp_confidence p \<le> 1"
    by (simp_all add: min_def)
next
  fix p assume "p \<in> set (concat (map (categoryPatterns tasks cats) breakdown))"
  then obtain cid h where "p \<in> set (categoryPatterns tasks cats (cid, h))" by auto
  from category_confidence [OF this]
  show "tp_confidence p = min (real (tp_sampleSize p) / (if tp_type p = Time then 10 else 5)) 1"
    and "0 \<le> tp_confidence p" and "tp_confidence p \<le> 1"
    by (simp_all add: min_def)
qed

theorem C5_confidence_witness:
  "length (analyzeTimePatterns four_days [t1, t2, t3]) = 6
   \<and> list_all (\<lambda>p. tp_confidence p
          = min (real (tp_sampleSize p) / (if tp_type p = Time then 10 else 5)) 1
        \<and> 0 \<le> tp_confidence p \<and> tp_confidence p \<le> 1)
       (analyzeTimePatterns four_days [t1, t2, t3])
   \<and> length (analyzeDurationPatterns four_days [t1, t2, t3]) = 3
   \<and> list_all (\<lambda>p. dp_confidence p = min (real (dp_sampleSize p) / 10) 1
        \<and> 0 \<le> dp_confidence p \<and> dp_confidence p \<le> 1)
       (analyzeDurationPatterns four_days [t1, t2, t3])
   \<and> length (analyzeFrequencyPatterns four_days [t1, t2, t3]) = 3
   \<and> list_all (\<lambda>p. fp_confidence p = min (real (fp_sampleSize p) / 15) 1
        \<and> 0 \<le> fp_confidence p \<and> fp_confidence p \<le> 1)
       (analyzeFrequencyPatterns four_days [t1, t2, t3])
   \<and> length (analyzeSequencePatterns four_days [t1, t2, t3]) = 2
   \<and> list_all (\<lambda>p. sp_confidence p = min (real (sp_sampleSize p) / 10) 1
        \<and> 0 \<le> sp_confidence p \<and> sp_confidence p \<le> 1)
       (analyzeSequencePatterns four_days [t1, t2, t3])
   \<and> length (concat (map (categoryPatterns [t1, t2, t3] []) [(''trip'', near_ten)])) = 1
   \<and> list_all (\<lambda>p. tp_confidence p
          = min (real (tp_sampleSize p) / (if tp_type p = Time then 10 else 5)) 1
        \<and> 0 \<le> tp_confidence p \<and> tp_confidence p \<le> 1)
       (concat (map (categoryPatterns [t1, t2, t3] []) [(''trip'', near_ten)]))"
proof -
  have "length (analyzeTimePatterns four_days [t1, t2, t3]) = 6"
    by (simp add: four_days_def three_days_def time_defs eval_defs)
  moreover have "length (analyzeDurationPatterns four_days [t1, t2, t3]) = 3"
    by (simp add: four_days_def three_days_def duration_defs eval_defs)
  moreover have "length (analyzeFrequencyPatterns four_days [t1, t2, t3]) = 3"
    by (simp add: four_days_def three_days_def frequency_defs eval_defs)
  moreover have "length (analyzeSequencePatterns four_days [t1, t2, t3]) = 2"
    by (simp add: four_days_def three_days_def sequence_defs eval_defs)
  moreover have
    "length (concat (map (categoryPatterns [t1, t2, t3] []) [(''trip'', near_ten)])) = 1"
    by (simp add: near_ten_def categoryPatterns_def time_defs eval_defs)
  ultimately show ?thesis
    using C5_confidence [of four_days "[t1, t2, t3]" "[]" "[(''trip'', near_ten)]"]
    unfolding list_all_iff by blast
qed

subsection \<open>Objects used as dictionaries\<close>

lemma map_of_obj_update:
  "map_of (obj_update k d f m) k' =
     (if k' = k then Some (f (case map_of m k of None \<Rightarrow> d | Some v \<Rightarrow> v)) else map_of m k')"
  by (induction m) auto

lemma keys_obj_update: "fst ` set (obj_update k d f m) = insert k (fst ` set m)"
proof (induction m)
  case Nil
  then show ?case by simp
next
  case (Cons a m)
  then show ?case by (cases a) (simp add: insert_commute)
qed

lemma distinct_obj_update:
  "distinct (map fst m) \<Longrightarrow> distinct (map fst (obj_update k d f m))"
proof (induction m)
  case Nil
  then show ?case by simp
next
  case (Cons a m)
  obtain k' v where a: "a = (k', v)" by (cases a)
  have "k' \<notin> fst ` set (obj_update k d f m)" if "k' \<noteq> k"
    using that Cons.prems a by (simp add: keys_obj_update)
  with Cons a show ?case by auto
qed

lemma map_of_fold_obj:
  "map_of (foldl (\<lambda>m x. if P x then obj_update (k x) (d x) (f x) m else m) m0 xs) key =
     foldl (\<lambda>v x. Some (f x (case v of None \<Rightarrow> d x | Some w \<Rightarrow> w))) (map_of m0 key)
       (filter (\<lambda>x. P x \<and> k x = key) xs)"
  by (induction xs arbitrary: m0) (simp_all add: map_of_obj_update)

lemma distinct_fold_obj:
  "distinct (map fst m0) \<Longrightarrow>
   distinct (map fst (foldl (\<lambda>m x. if P x then obj_update (k x) (d x) (f x) m else m) m0 xs))"
  by (induction xs arbitrary: m0) (simp_all add: distinct_obj_update)







subsection \<open>The dictionary of the sequence analyzer\<close>

lemma obj_update_cong: "(\<And>s. f s = g s) \<Longrightarrow> obj_update k d f m = obj_update k d g m"
  by (induction m) auto

lemma sequenceStep_Some:
  "sequenceStep (Some l, m) e =
     (Some e,
      if date (fst (l, e)) = date (snd (l, e)) then
        obj_update (key_of (l, e))
          \<lparr>seq_fromTaskId = taskId (fst (l, e)), seq_toTaskId = taskId (snd (l, e)),
           seq_count = 0, avgGap = []\<rparr>
          (\<lambda>s. s\<lparr>seq_count := seq_count s + 1, avgGap := avgGap s @ valid_gap (l, e)\<rparr>) m
      else m)"
proof -
  have "obj_update k d
         (\<lambda>s. let s' = s\<lparr>seq_count := seq_count s + 1\<rparr>
              in if endTime l \<noteq> None \<and> startTime e \<noteq> None then
                   let gap = timeToMinutes (startTime e) - timeToMinutes (endTime l)
                   in if gap \<ge> 0 \<and> gap < 240 then s'\<lparr>avgGap := avgGap s' @ [gap]\<rparr> else s'
                 else s') m
        = obj_update k d
            (\<lambda>s. s\<lparr>seq_count := seq_count s + 1, avgGap := avgGap s @ valid_gap (l, e)\<rparr>) m"
    for k d
    by (rule obj_update_cong) (simp add: valid_gap_def Let_def)
  then show ?thesis
    unfolding sequenceStep_def key_of_def
    by (simp only: prod.case option.case fst_conv snd_conv)
qed

lemma foldl_sequenceStep:
  "snd (foldl sequenceStep (Some l, m) xs) =
     foldl (\<lambda>m t. if date (fst t) = date (snd t) then
                     obj_update (key_of t)
                       \<lparr>seq_fromTaskId = taskId (fst t), seq_toTaskId = taskId (snd t),
                        seq_count = 0, avgGap = []\<rparr>
                       (\<lambda>s. s\<lparr>seq_count := seq_count s + 1, avgGap := avgGap s @ valid_gap t\<rparr>) m
                   else m)
       m (zip (l # xs) xs)"
proof (induction xs arbitrary: l m)
  case Nil
  then show ?case by simp
next
  case (Cons x xs)
  show ?case
    unfolding foldl_Cons sequenceStep_Some zip_Cons_Cons
    by (subst Cons.IH) simp
qed

lemma sequenceMap_fold:
  "sequenceMap history =
     foldl (\<lambda>m t. if date (fst t) = date (snd t) then
                     obj_update (key_of t)
                       \<lparr>seq_fromTaskId = taskId (fst t), seq_toTaskId = taskId (snd t),
                        seq_count = 0, avgGap = []\<rparr>
                       (\<lambda>s. s\<lparr>seq_count := seq_count s + 1, avgGap := avgGap s @ valid_gap t\<rparr>) m
                   else m)
       [] (zip (sortedHistory history) (tl (sortedHistory history)))"
proof (cases "sortedHistory history")
  case Nil
  then show ?thesis by (simp add: sequenceMap_def)
next
  case (Cons x xs)
  have "sequenceStep (None, []) x = (Some x, [])"
    by (simp add: sequenceStep_def)
  with Cons show ?thesis
    by (simp add: sequenceMap_def foldl_sequenceStep)
qed

lemma foldl_seq_values:
  "foldl (\<lambda>v t. Some ((\<lambda>s. s\<lparr>seq_count := seq_count s + 1, avgGap := avgGap s @ valid_gap t\<rparr>)
            (case v of None \<Rightarrow> \<lparr>seq_fromTaskId = taskId (fst t), seq_toTaskId = taskId (snd t),
                                   seq_count = 0, avgGap = []\<rparr>
                     | Some w \<Rightarrow> w)))
     (Some w) ts =
   Some (w\<lparr>seq_count := seq_count w + length ts,
           avgGap := avgGap w @ concat (map valid_gap ts)\<rparr>)"
  by (induction ts arbitrary: w) simp_all

lemma map_of_sequenceMap:
  "map_of (sequenceMap history) key =
     (case filed_under history key of
        [] \<Rightarrow> None
      | t # ts \<Rightarrow>
          Some \<lparr>seq_fromTaskId = taskId (fst t), seq_toTaskId = taskId (snd t),
                seq_count = length (t # ts), avgGap = concat (map valid_gap (t # ts))\<rparr>)"
proof -
  have f: "filter (\<lambda>t. date (fst t) = date (snd t) \<and> key_of t = key)
             (zip (sortedHistory history) (tl (sortedHistory history)))
           = filed_under history key"
    by (simp add: filed_under_def transitions_def conj_commute)
  show ?thesis
  proof (cases "filed_under history key")
    case Nil
    then show ?thesis
      unfolding sequenceMap_fold map_of_fold_obj f by simp
  next
    case (Cons t ts)
    show ?thesis
      unfolding sequenceMap_fold map_of_fold_obj f Cons foldl_Cons map_of.simps(1)
        option.case foldl_seq_values list.case
      by simp
  qed
qed

lemma distinct_sequenceMap: "distinct (map fst (sequenceMap history))"
  unfolding sequenceMap_fold by (rule distinct_fold_obj) simp

lemma sequenceMap_entry:
  assumes "(key, s) \<in> set (sequenceMap history)"
  shows "filed_under history key \<noteq> []"
    and "seq_count s = length (filed_under history key)"
    and "avgGap s = concat (map valid_gap (filed_under history key))"
    and "seq_fromTaskId s @ ''_'' @ seq_toTaskId s = key"
    and "\<exists>t \<in> set (transitions history). key_of t = key
           \<and> seq_fromTaskId s = taskId (fst t) \<and> seq_toTaskId s = taskId (snd t)"
proof -
  from assms have m: "map_of (sequenceMap history) key = Some s"
    using distinct_sequenceMap by simp
  then obtain t ts where t: "filed_under history key = t # ts"
    unfolding map_of_sequenceMap by (cases "filed_under history key") auto
  with m have s: "s = \<lparr>seq_fromTaskId = taskId (fst t), seq_toTaskId = taskId (snd t),
                seq_count = length (t # ts), avgGap = concat (map valid_gap (t # ts))\<rparr>"
    unfolding map_of_sequenceMap by simp
  from t have "t \<in> set (filed_under history key)" by simp
  then have k: "key_of t = key" and h: "t \<in> set (transitions history)"
    by (simp_all add: filed_under_def)
  show "filed_under history key \<noteq> []" using t by simp
  show "seq_count s = length (filed_under history key)" using s t by simp
  show "avgGap s = concat (map valid_gap (filed_under history key))" using s t by simp
  show "seq_fromTaskId s @ ''_'' @ seq_toTaskId s = key"
    using s k by (simp add: key_of_def)
  show "\<exists>t \<in> set (transitions history). key_of t = key
           \<and> seq_fromTaskId s = taskId (fst t) \<and> seq_toTaskId s = taskId (snd t)"
    using s k h by auto
qed

text \<open>
  When transitions between different pairs of tasks have different keys, the
  transitions filed under the key of an entry of the dictionary are the transitions
  between the two tasks of the entry.
\<close>

lemma filed_under_pair:
  assumes "(key, s) \<in> set (sequenceMap history)" and "distinct_keys history"
  shows "filed_under history key = transitions_of history (seq_fromTaskId s) (seq_toTaskId s)"
proof -
  from sequenceMap_entry(5) [OF assms(1)] obtain t
    where t: "t \<in> set (transitions history)" and k: "key_of t = key"
      and f: "seq_fromTaskId s = taskId (fst t)" and g: "seq_toTaskId s = taskId (snd t)"
    by blast
  have "key_of u = key \<longleftrightarrow> taskId (fst u) = seq_fromTaskId s \<and> taskId (snd u) = seq_toTaskId s"
    if u: "u \<in> set (transitions history)" for u
  proof
    assume "key_of u = key"
    with k have "key_of u = key_of t" by simp
    with assms(2) u t show "taskId (fst u) = seq_fromTaskId s \<and> taskId (snd u) = seq_toTaskId s"
      unfolding distinct_keys_def f g by blast
  next
    assume "taskId (fst u) = seq_fromTaskId s \<and> taskId (snd u) = seq_toTaskId s"
    with f g have "key_of u = key_of t" by (simp add: key_of_def)
    with k show "key_of u = key" by simp
  qed
  then show ?thesis
    unfolding filed_under_def transitions_of_def by (intro filter_cong refl)
qed

text \<open>The keys are distinct in this sense when no task id contains an underscore.\<close>

lemma append_separator_inject:
  "x \<notin> set a \<Longrightarrow> x \<notin> set c \<Longrightarrow> a @ x # b = c @ x # d \<Longrightarrow> a = c \<and> b = d"
proof (induction a arbitrary: c)
  case Nil
  then show ?case by (cases c) auto
next
  case (Cons y ys)
  then show ?case by (cases c) auto
qed

lemma set_transitions:
  "t \<in> set (transitions history) \<Longrightarrow> fst t \<in> set history \<and> snd t \<in> set history"
proof -
  assume "t \<in> set (transitions history)"
  then have z: "t \<in> set (zip (sortedHistory history) (tl (sortedHistory history)))"
    by (simp add: transitions_def)
  obtain a b where ab: "t = (a, b)" by (cases t)
  from z have "a \<in> set (sortedHistory history)"
    unfolding ab by (rule set_zip_leftD)
  moreover from z have "b \<in> set (tl (sortedHistory history))"
    unfolding ab by (rule set_zip_rightD)
  then have "b \<in> set (sortedHistory history)"
    by (cases "sortedHistory history") simp_all
  ultimately show ?thesis
    unfolding ab
    by (simp add: sortedHistory_def set_js_sort)
qed

lemma distinct_keys_no_underscore:
  assumes "\<And>e. e \<in> set history \<Longrightarrow> CHR ''_'' \<notin> set (taskId e)"
  shows "distinct_keys history"
  unfolding distinct_keys_def key_of_def
proof (intro ballI impI)
  fix t u
  assume t: "t \<in> set (transitions history)" and u: "u \<in> set (transitions history)"
    and k: "taskId (fst t) @ ''_'' @ taskId (snd t) = taskId (fst u) @ ''_'' @ taskId (snd u)"
  from set_transitions [OF t] set_transitions [OF u] assms
  have "CHR ''_'' \<notin> set (taskId (fst t))" "CHR ''_'' \<notin> set (taskId (fst u))"
    by simp_all
  moreover from k have "taskId (fst t) @ CHR ''_'' # taskId (snd t)
      = taskId (fst u) @ CHR ''_'' # taskId (snd u)"
    by simp
  ultimately show "taskId (fst t) = taskId (fst u) \<and> taskId (snd t) = taskId (snd u)"
    by (rule append_separator_inject)
qed

lemma valid_gap_range: "g \<in> set (valid_gap t) \<Longrightarrow> 0 \<le> g \<and> g < 240"
  by (simp add: valid_gap_def split: if_splits)

lemma gaps_of_range: "g \<in> set (gaps_of history fromId toId) \<Longrightarrow> 0 \<le> g \<and> g < 240"
  using valid_gap_range by (fastforce simp: gaps_of_def)

lemma find_task_None: "find_task tasks tid = None \<longleftrightarrow> tid \<notin> task_id ` set tasks"
  by (auto simp: find_task_def find_None_iff)

lemma sequencePattern_cases:
  assumes "p \<in> set (sequencePattern tasks (key, s))"
  shows "3 \<le> seq_count s" and "sp_count p = seq_count s"
    and "fromTaskId p = seq_fromTaskId s" and "toTaskId p = seq_toTaskId s"
    and "fromTaskId p \<in> task_id ` set tasks" and "toTaskId p \<in> task_id ` set tasks"
    and "averageGap p =
      (if avgGap s = [] \<or> sum_list (avgGap s) / real (length (avgGap s)) = 0 then None
       else Some (math_round (sum_list (avgGap s) / real (length (avgGap s)))))"
proof -
  show c: "3 \<le> seq_count s"
    using assms by (simp add: sequencePattern_def split: if_splits)
  have "find_task tasks (seq_fromTaskId s) \<noteq> None \<and> find_task tasks (seq_toTaskId s) \<noteq> None"
    using assms c by (cases "find_task tasks (seq_fromTaskId s)";
        cases "find_task tasks (seq_toTaskId s)") (simp_all add: sequencePattern_def)
  then obtain fromTask toTask where f: "find_task tasks (seq_fromTaskId s) = Some fromTask"
    and t: "find_task tasks (seq_toTaskId s) = Some toTask"
    by auto
  from f t have "seq_fromTaskId s \<in> task_id ` set tasks" "seq_toTaskId s \<in> task_id ` set tasks"
    using find_task_None by (metis option.distinct(1))+
  moreover have p: "p = \<lparr>sp_id = ''sequence_'' @ key,
              fromTaskId = seq_fromTaskId s,
              fromTaskName = task_name fromTask,
              toTaskId = seq_toTaskId s,
              toTaskName = task_name toTask,
              sp_count = seq_count s,
              averageGap = (case (if length (avgGap s) > 0
                     then Some (sum_reduce (avgGap s) / real (length (avgGap s))) else None) of
                              None \<Rightarrow> None
                            | Some g \<Rightarrow> if g = 0 then None else Some (math_round g)),
              sp_sampleSize = seq_count s,
              sp_confidence = min (real (seq_count s) / 10) 1\<rparr>"
    using assms c f t by (simp add: sequencePattern_def Let_def)
  ultimately show "sp_count p = seq_count s"
    and "fromTaskId p = seq_fromTaskId s" and "toTaskId p = seq_toTaskId s"
    and "fromTaskId p \<in> task_id ` set tasks" and "toTaskId p \<in> task_id ` set tasks"
    by simp_all
  show "averageGap p =
      (if avgGap s = [] \<or> sum_list (avgGap s) / real (length (avgGap s)) = 0 then None
       else Some (math_round (sum_list (avgGap s) / real (length (avgGap s)))))"
    unfolding p by (simp add: sum_reduce_sum_list)
qed

subsection \<open>C3: the average gap of a sequence pattern\<close>

text \<open>
  C3, as stated, fails twice on \<open>three_days\<close>. Between the second and the third task
  the gaps 1, 2 and 2 were collected: their mean is 5/3, and \<open>averageGap\<close> is 2, the
  mean rounded. Between the first and the second task the gaps 0, 0 and 0 were collected,
  and \<open>averageGap\<close> is \<open>null\<close>, not 0.
\<close>

theorem C3_counterexample:
  "gaps_of three_days ''t1'' ''t2'' = [0, 0, 0]
   \<and> gaps_of three_days ''t2'' ''t3'' = [1, 2, 2]
   \<and> analyzeSequencePatterns three_days [t1, t2, t3] =
       [\<lparr>sp_id = ''sequence_t1_t2'', fromTaskId = ''t1'', fromTaskName = ''Read'',
         toTaskId = ''t2'', toTaskName = ''Run'', sp_count = 3, averageGap = None,
         sp_sampleSize = 3, sp_confidence = 3 / 10\<rparr>,
        \<lparr>sp_id = ''sequence_t2_t3'', fromTaskId = ''t2'', fromTaskName = ''Run'',
         toTaskId = ''t3'', toTaskName = ''Cook'', sp_count = 3, averageGap = Some 2,
         sp_sampleSize = 3, sp_confidence = 3 / 10\<rparr>]"
proof -
  have "gaps_of three_days ''t1'' ''t2'' = [0, 0, 0]"
    by (simp add: gaps_of_def transitions_of_def transitions_def
        valid_gap_def sortedHistory_def three_days_def eval_defs)
  moreover have "gaps_of three_days ''t2'' ''t3'' = [1, 2, 2]"
    by (simp add: gaps_of_def transitions_of_def transitions_def
        valid_gap_def sortedHistory_def three_days_def eval_defs)
  moreover have "analyzeSequencePatterns three_days [t1, t2, t3] =
       [\<lparr>sp_id = ''sequence_t1_t2'', fromTaskId = ''t1'', fromTaskName = ''Read'',
         toTaskId = ''t2'', toTaskName = ''Run'', sp_count = 3, averageGap = None,
         sp_sampleSize = 3, sp_confidence = 3 / 10\<rparr>,
        \<lparr>sp_id = ''sequence_t2_t3'', fromTaskId = ''t2'', fromTaskName = ''Run'',
         toTaskId = ''t3'', toTaskName = ''Cook'', sp_count = 3, averageGap = Some 2,
         sp_sampleSize = 3, sp_confidence = 3 / 10\<rparr>]"
    by (simp add: three_days_def sequence_defs eval_defs)
  ultimately show ?thesis by simp
qed

text \<open>
  C3, amended: in a history whose transitions between different pairs of tasks have
  different keys (as they have when no task id contains an underscore), for every
  sequence pattern emitted by \<^verbatim>\<open>analyzeSequencePatterns\<close>, the gaps collected for the
  transition from its first task to its second are valid (not negative and below 240
  minutes); \<open>averageGap\<close> is \<open>null\<close> if no valid gap was collected for this transition,
  and it is the arithmetic mean of the collected gaps rounded to the nearest integer,
  and not \<open>null\<close>, if that mean is not zero.
\<close>

theorem C3_average_gap:
  assumes "p \<in> set (analyzeSequencePatterns history tasks)" and "distinct_keys history"
  shows "(\<forall>g \<in> set (gaps_of history (fromTaskId p) (toTaskId p)). 0 \<le> g \<and> g < 240)
    \<and> (gaps_of history (fromTaskId p) (toTaskId p) = [] \<longrightarrow> averageGap p = None)
    \<and> (sum_list (gaps_of history (fromTaskId p) (toTaskId p)) \<noteq> 0 \<longrightarrow>
         averageGap p =
           Some (math_round (sum_list (gaps_of history (fromTaskId p) (toTaskId p))
                   / real (length (gaps_of history (fromTaskId p) (toTaskId p))))))"
proof -
  from sequence_emitted [OF assms(1)] obtain key s
    where m: "(key, s) \<in> set (sequenceMap history)"
      and p: "p \<in> set (sequencePattern tasks (key, s))" by blast
  have "avgGap s = concat (map valid_gap (filed_under history key))"
    by (rule sequenceMap_entry(3) [OF m])
  also have "filed_under history key = transitions_of history (fromTaskId p) (toTaskId p)"
    unfolding sequencePattern_cases(3,4) [OF p] by (rule filed_under_pair [OF m assms(2)])
  finally have g: "avgGap s = gaps_of history (fromTaskId p) (toTaskId p)"
    by (simp add: gaps_of_def)
  have "sum_list (avgGap s) \<noteq> 0 \<Longrightarrow> avgGap s \<noteq> []"
    by auto
  then show ?thesis
    using sequencePattern_cases(7) [OF p] gaps_of_range [of _ history]
    unfolding g by auto
qed

theorem C3_average_gap_witness:
  "distinct_keys three_days
   \<and> distinct_keys no_end_times
   \<and> last (analyzeSequencePatterns three_days [t1, t2, t3])
     \<in> set (analyzeSequencePatterns three_days [t1, t2, t3])
   \<and> fromTaskId (last (analyzeSequencePatterns three_days [t1, t2, t3])) = ''t2''
   \<and> toTaskId (last (analyzeSequencePatterns three_days [t1, t2, t3])) = ''t3''
   \<and> gaps_of three_days ''t2'' ''t3'' = [1, 2, 2]
   \<and> averageGap (last (analyzeSequencePatterns three_days [t1, t2, t3]))
       = Some (math_round (5 / 3))
   \<and> hd (analyzeSequencePatterns no_end_times [t1, t2])
     \<in> set (analyzeSequencePatterns no_end_times [t1, t2])
   \<and> fromTaskId (hd (analyzeSequencePatterns no_end_times [t1, t2])) = ''t1''
   \<and> toTaskId (hd (analyzeSequencePatterns no_end_times [t1, t2])) = ''t2''
   \<and> gaps_of no_end_times ''t1'' ''t2'' = []
   \<and> averageGap (hd (analyzeSequencePatterns no_end_times [t1, t2])) = None"
proof -
  have a: "analyzeSequencePatterns three_days [t1, t2, t3] =
       [\<lparr>sp_id = ''sequence_t1_t2'', fromTaskId = ''t1'', fromTaskName = ''Read'',
         toTaskId = ''t2'', toTaskName = ''Run'', sp_count = 3, averageGap = None,
         sp_sampleSize = 3, sp_confidence = 3 / 10\<rparr>,
        \<lparr>sp_id = ''sequence_t2_t3'', fromTaskId = ''t2'', fromTaskName = ''Run'',
         toTaskId = ''t3'', toTaskName = ''Cook'', sp_count = 3, averageGap = Some 2,
         sp_sampleSize = 3, sp_confidence = 3 / 10\<rparr>]"
    by (simp add: three_days_def sequence_defs eval_defs)
  have b: "gaps_of three_days ''t2'' ''t3'' = [1, 2, 2]"
    by (simp add: gaps_of_def transitions_of_def transitions_def
        valid_gap_def sortedHistory_def three_days_def eval_defs)
  have d: "analyzeSequencePatterns no_end_times [t1, t2] =
        [\<lparr>sp_id = ''sequence_t1_t2'', fromTaskId = ''t1'', fromTaskName = ''Read'',
         toTaskId = ''t2'', toTaskName = ''Run'', sp_count = 3, averageGap = None,
         sp_sampleSize = 3, sp_confidence = 3 / 10\<rparr>]"
    by (simp add: no_end_times_def sequence_defs eval_defs)
  have e: "gaps_of no_end_times ''t1'' ''t2'' = []"
    by (simp add: gaps_of_def transitions_of_def transitions_def
        valid_gap_def sortedHistory_def no_end_times_def eval_defs)
  have m1: "last (analyzeSequencePatterns three_days [t1, t2, t3])
     \<in> set (analyzeSequencePatterns three_days [t1, t2, t3])"
    using a by simp
  have m2: "hd (analyzeSequencePatterns no_end_times [t1, t2])
     \<in> set (analyzeSequencePatterns no_end_times [t1, t2])"
    using d by simp
  have k1: "distinct_keys three_days"
    by (simp add: distinct_keys_def transitions_def key_of_def sortedHistory_def
        three_days_def eval_defs)
  have k2: "distinct_keys no_end_times"
    by (simp add: distinct_keys_def transitions_def key_of_def sortedHistory_def
        no_end_times_def eval_defs)
  show ?thesis
    using C3_average_gap [OF m1 k1] C3_average_gap [OF m2 k2]
    by (simp add: a b d e k1 k2)
qed

subsection \<open>C7: the sequence patterns, their order and their number\<close>

lemma length_sequencePattern:
  "length (sequencePattern tasks (key, s)) =
     (if 3 \<le> seq_count s \<and> seq_fromTaskId s \<in> task_id ` set tasks
         \<and> seq_toTaskId s \<in> task_id ` set tasks then 1 else 0)"
proof (cases "find_task tasks (seq_fromTaskId s)")
  case None
  then show ?thesis
    using find_task_None [of tasks "seq_fromTaskId s"] by (simp add: sequencePattern_def)
next
  case f: (Some fromTask)
  show ?thesis
  proof (cases "find_task tasks (seq_toTaskId s)")
    case None
    then show ?thesis
      using f find_task_None [of tasks "seq_toTaskId s"] by (simp add: sequencePattern_def)
  next
    case (Some toTask)
    then show ?thesis
      using f find_task_None [of tasks "seq_fromTaskId s"]
        find_task_None [of tasks "seq_toTaskId s"]
      by (simp add: sequencePattern_def Let_def)
  qed
qed

lemma length_concat_filter:
  assumes "\<And>x. length (f x) = (if Q x then 1 else 0)"
  shows "length (concat (map f xs)) = length (filter Q xs)"
  by (induction xs) (simp_all add: assms)

lemma length_sequence_patterns:
  "length (concat (map (sequencePattern tasks) (sequenceMap history))) =
     length (filter (\<lambda>(key, s). 3 \<le> seq_count s \<and> seq_fromTaskId s \<in> task_id ` set tasks
                       \<and> seq_toTaskId s \<in> task_id ` set tasks) (sequenceMap history))"
proof (rule length_concat_filter)
  fix x :: "string \<times> seq"
  show "length (sequencePattern tasks x) =
     (if (case x of (key, s) \<Rightarrow> 3 \<le> seq_count s \<and> seq_fromTaskId s \<in> task_id ` set tasks
                       \<and> seq_toTaskId s \<in> task_id ` set tasks) then 1 else 0)"
    by (cases x) (simp only: length_sequencePattern prod.case)
qed

lemma sorted_by_count:
  "sorted_wrt (\<lambda>a b. sp_count a \<ge> sp_count b)
     (js_sort (\<lambda>a b. real (sp_count b) - real (sp_count a)) ps)"
proof -
  have "sorted_wrt (\<lambda>a b. real (sp_count b) - real (sp_count a) \<le> 0)
     (js_sort (\<lambda>a b. real (sp_count b) - real (sp_count a)) ps)"
    by (rule sorted_js_sort) auto
  then show ?thesis by simp
qed

text \<open>
  In a history whose transitions between different pairs of tasks have different keys,
  every sequence pattern emitted is for a transition between two tasks of the catalog
  that was observed at least 3 times, and its count is the number of these observations;
  for every history, the result is sorted by count, descending, and has as many patterns
  as there are qualifying entries in the dictionary, but at most 20.
\<close>

lemma sequence_patterns_distinct_keys:
  assumes "distinct_keys history" and "p \<in> set (analyzeSequencePatterns history tasks)"
  shows "sp_count p = length (transitions_of history (fromTaskId p) (toTaskId p))"
    and "3 \<le> sp_count p"
    and "fromTaskId p \<in> task_id ` set tasks" and "toTaskId p \<in> task_id ` set tasks"
proof -
  from sequence_emitted [OF assms(2)] obtain key s
    where m: "(key, s) \<in> set (sequenceMap history)"
      and p: "p \<in> set (sequencePattern tasks (key, s))" by blast
  have "filed_under history key = transitions_of history (fromTaskId p) (toTaskId p)"
    unfolding sequencePattern_cases(3,4) [OF p] by (rule filed_under_pair [OF m assms(1)])
  then show "sp_count p = length (transitions_of history (fromTaskId p) (toTaskId p))"
    using sequencePattern_cases(2) [OF p] sequenceMap_entry(2) [OF m] by simp
  show "3 \<le> sp_count p"
    using sequencePattern_cases(1,2) [OF p] by simp
  show "fromTaskId p \<in> task_id ` set tasks" "toTaskId p \<in> task_id ` set tasks"
    using sequencePattern_cases(5,6) [OF p] by simp_all
qed

lemma sequence_patterns_sorted:
  "sorted_wrt (\<lambda>a b. sp_count a \<ge> sp_count b) (analyzeSequencePatterns history tasks)"
  unfolding analyzeSequencePatterns_def
  by (rule sorted_wrt_take) (rule sorted_by_count)

lemma sequence_patterns_length:
  "length (analyzeSequencePatterns history tasks) =
     min 20 (length (filter (\<lambda>(key, s). 3 \<le> seq_count s
                               \<and> seq_fromTaskId s \<in> task_id ` set tasks
                               \<and> seq_toTaskId s \<in> task_id ` set tasks)
                       (sequenceMap history)))"
  by (simp add: analyzeSequencePatterns_def length_js_sort length_sequence_patterns
      min.commute)

text \<open>
  C7 fails on the code. In \<open>underscore_history\<close> the transition from \<^verbatim>\<open>a_b\<close> to \<^verbatim>\<open>c\<close>
  was observed once, and the one from \<^verbatim>\<open>a\<close> to \<^verbatim>\<open>b_c\<close> twice, with a gap of 20 minutes;
  no transition was observed 3 times. Both are filed under the key \<^verbatim>\<open>a_b_c\<close>, and the
  analyzer emits a pattern for the transition from \<^verbatim>\<open>a_b\<close> to \<^verbatim>\<open>c\<close> with the count 3 and
  the average gap 20.
\<close>

theorem C7_key_collision:
  "map (\<lambda>t. (taskId (fst t), taskId (snd t))) (transitions underscore_history)
     = [(''a_b'', ''c''), (''a'', ''b_c''), (''a'', ''b_c'')]
   \<and> length (transitions_of underscore_history ''a_b'' ''c'') = 1
   \<and> gaps_of underscore_history ''a_b'' ''c'' = []
   \<and> analyzeSequencePatterns underscore_history underscore_tasks =
       [\<lparr>sp_id = ''sequence_a_b_c'', fromTaskId = ''a_b'', fromTaskName = ''a_b'',
         toTaskId = ''c'', toTaskName = ''c'', sp_count = 3, averageGap = Some 20,
         sp_sampleSize = 3, sp_confidence = 3 / 10\<rparr>]"
proof -
  have "map (\<lambda>t. (taskId (fst t), taskId (snd t))) (transitions underscore_history)
     = [(''a_b'', ''c''), (''a'', ''b_c''), (''a'', ''b_c'')]"
    by (simp add: transitions_def sortedHistory_def underscore_history_def eval_defs)
  moreover have "length (transitions_of underscore_history ''a_b'' ''c'') = 1"
    by (simp add: transitions_of_def transitions_def sortedHistory_def
        underscore_history_def eval_defs)
  moreover have "gaps_of underscore_history ''a_b'' ''c'' = []"
    by (simp add: gaps_of_def transitions_of_def transitions_def valid_gap_def
        sortedHistory_def underscore_history_def eval_defs)
  moreover have "analyzeSequencePatterns underscore_history underscore_tasks =
       [\<lparr>sp_id = ''sequence_a_b_c'', fromTaskId = ''a_b'', fromTaskName = ''a_b'',
         toTaskId = ''c'', toTaskName = ''c'', sp_count = 3, averageGap = Some 20,
         sp_sampleSize = 3, sp_confidence = 3 / 10\<rparr>]"
    by (simp add: underscore_history_def underscore_tasks_def sequence_defs eval_defs)
  ultimately show ?thesis by simp
qed

subsection \<open>The dictionaries of the time analyzer\<close>








subsection \<open>What the time analyzer emits\<close>

lemma find_task_Some: "find_task tasks tid = Some t \<Longrightarrow> task_id t = tid \<and> t \<in> set tasks"
  by (auto simp: find_task_def find_Some_iff)









subsection \<open>C6: when a time pattern is emitted\<close>




subsection \<open>The routine suggestions\<close>

lemma hhmm_localeCompare_sign:
  "hhmm_localeCompare a b < 0 \<longleftrightarrow> earlier a b"
  "hhmm_localeCompare a b = 0 \<longleftrightarrow> a = b"
  "hhmm_localeCompare a b > 0 \<longleftrightarrow> earlier b a"
proof -
  obtain h m where a: "a = \<lparr>hh = h, mm = m\<rparr>" by (cases a) simp
  obtain h' m' where b: "b = \<lparr>hh = h', mm = m'\<rparr>" by (cases b) simp
  show "hhmm_localeCompare a b < 0 \<longleftrightarrow> earlier a b"
    unfolding a b by (simp add: hhmm_localeCompare_def earlier_def)
  show "hhmm_localeCompare a b = 0 \<longleftrightarrow> a = b"
    unfolding a b by (simp add: hhmm_localeCompare_def)
  show "hhmm_localeCompare a b > 0 \<longleftrightarrow> earlier b a"
    unfolding a b by (auto simp: hhmm_localeCompare_def earlier_def)
qed

lemma earlier_asym: "earlier a b \<Longrightarrow> \<not> earlier b a \<and> a \<noteq> b"
  by (auto simp: earlier_def)

lemma suggestion_cmp_le:
  "suggestion_cmp a b \<le> 0 \<longleftrightarrow>
     (earlier (suggestedTime a) (suggestedTime b)
      \<or> (suggestedTime a = suggestedTime b \<and> sg_confidence b \<le> sg_confidence a))"
proof -
  define c where "c = hhmm_localeCompare (suggestedTime a) (suggestedTime b)"
  have cmp: "suggestion_cmp a b = (if c \<noteq> 0 then c else sg_confidence b - sg_confidence a)"
    by (simp add: suggestion_cmp_def c_def)
  consider (lt) "c < 0" | (eq) "c = 0" | (gt) "c > 0" by linarith
  then show ?thesis
  proof cases
    case lt
    then have "earlier (suggestedTime a) (suggestedTime b)"
      by (simp add: c_def hhmm_localeCompare_sign(1))
    with lt show ?thesis by (simp add: cmp)
  next
    case eq
    then have e: "suggestedTime a = suggestedTime b"
      by (simp add: c_def hhmm_localeCompare_sign(2))
    then have "\<not> earlier (suggestedTime a) (suggestedTime b)"
      using earlier_asym by force
    with eq e show ?thesis by (simp add: cmp)
  next
    case gt
    then have "earlier (suggestedTime b) (suggestedTime a)"
      by (simp add: c_def hhmm_localeCompare_sign(3))
    then have "\<not> earlier (suggestedTime a) (suggestedTime b)
        \<and> suggestedTime a \<noteq> suggestedTime b"
      using earlier_asym by force
    with gt show ?thesis by (simp add: cmp)
  qed
qed

lemma sorted_suggestions:
  "sorted_wrt (\<lambda>a b. earlier (suggestedTime a) (suggestedTime b)
      \<or> (suggestedTime a = suggestedTime b \<and> sg_confidence b \<le> sg_confidence a))
     (js_sort suggestion_cmp xs)"
proof -
  have "sorted_wrt (\<lambda>a b. suggestion_cmp a b \<le> 0) (js_sort suggestion_cmp xs)"
  proof (rule sorted_js_sort)
    fix a b :: suggestion
    show "suggestion_cmp a b \<le> 0 \<or> suggestion_cmp b a \<le> 0"
      unfolding suggestion_cmp_le
      by (cases "suggestedTime a"; cases "suggestedTime b") (auto simp: earlier_def)
  next
    fix a b c :: suggestion
    assume "suggestion_cmp a b \<le> 0" "suggestion_cmp b c \<le> 0"
    then show "suggestion_cmp a c \<le> 0"
      unfolding suggestion_cmp_le by (auto simp: earlier_def)
  qed
  then show ?thesis
    unfolding suggestion_cmp_le .
qed

lemma routineSuggestion_nonempty:
  assumes "find_task tasks (fp_taskId fp) = Some task"
  shows "routineSuggestion tasks tps dow fp \<noteq> [] \<longleftrightarrow>
     ((\<exists>dp. find (\<lambda>x. day x = dow) (preferredDays fp) = Some dp \<and> 20 \<le> percentage dp)
      \<and> (\<exists>p \<in> set tps. tp_taskId p = fp_taskId fp
            \<and> (tp_type p = Time_day \<and> tp_dayOfWeek p = Some dow \<or> tp_type p = Time)))"
proof -
  have "(\<exists>p \<in> set tps. tp_taskId p = fp_taskId fp
            \<and> (tp_type p = Time_day \<and> tp_dayOfWeek p = Some dow \<or> tp_type p = Time))
     \<longleftrightarrow> (find (\<lambda>p. tp_type p = Time_day \<and> tp_taskId p = fp_taskId fp
                          \<and> tp_dayOfWeek p = Some dow) tps \<noteq> None
          \<or> find (\<lambda>p. tp_type p = Time \<and> tp_taskId p = fp_taskId fp) tps \<noteq> None)"
    unfolding find_None_iff by auto
  then show ?thesis
    using assms by (auto simp: routineSuggestion_def Let_def split: option.splits)
qed

lemma routineSuggestion_length: "length (routineSuggestion tasks tps dow fp) \<le> 1"
  by (simp add: routineSuggestion_def Let_def split: option.splits)

lemma routineSuggestion_value:
  assumes "s \<in> set (routineSuggestion tasks tps dow fp)"
  shows "sg_taskId s \<in> task_id ` set tasks"
    and "case find (\<lambda>p. tp_type p = Time_day \<and> tp_taskId p = fp_taskId fp
                          \<and> tp_dayOfWeek p = Some dow) tps of
       Some p \<Rightarrow> suggestedTime s = tp_averageTime p
                 \<and> sg_confidence s = fp_confidence fp * (12 / 10)
     | None \<Rightarrow> (\<exists>g. find (\<lambda>p. tp_type p = Time \<and> tp_taskId p = fp_taskId fp) tps = Some g
                    \<and> suggestedTime s = tp_averageTime g)
               \<and> sg_confidence s = fp_confidence fp"
proof -
  from assms obtain task where t: "find_task tasks (fp_taskId fp) = Some task"
    by (cases "find_task tasks (fp_taskId fp)")
      (auto simp: routineSuggestion_def split: option.splits if_splits)
  with assms have "sg_taskId s = task_id task"
    by (auto simp: routineSuggestion_def Let_def split: option.splits if_splits)
  with find_task_Some [OF t] show "sg_taskId s \<in> task_id ` set tasks" by (metis imageI)
  from assms t show "case find (\<lambda>p. tp_type p = Time_day \<and> tp_taskId p = fp_taskId fp
                          \<and> tp_dayOfWeek p = Some dow) tps of
       Some p \<Rightarrow> suggestedTime s = tp_averageTime p
                 \<and> sg_confidence s = fp_confidence fp * (12 / 10)
     | None \<Rightarrow> (\<exists>g. find (\<lambda>p. tp_type p = Time \<and> tp_taskId p = fp_taskId fp) tps = Some g
                    \<and> suggestedTime s = tp_averageTime g)
               \<and> sg_confidence s = fp_confidence fp"
    by (auto simp: routineSuggestion_def Let_def split: option.splits if_splits)
qed

subsection \<open>C8: the routine suggestions\<close>

text \<open>
  C8: \<^verbatim>\<open>generateRoutineSuggestion\<close> returns the suggestions of the frequency patterns in
  the store, at most one for each. For a frequency pattern whose task is in the catalog,
  a suggestion is emitted exactly when the pattern's preferred-day entry for the target
  weekday has a share of at least 20 percent and the store has a \<open>time_day\<close> pattern for
  the task and the weekday or a \<open>time\<close> pattern for the task (a pattern whose task is not
  in the catalog yields nothing). The suggested time is that of the \<open>time_day\<close> pattern if
  there is one, and of the \<open>time\<close> pattern otherwise; the confidence is that of the
  frequency pattern, multiplied by 1.2 exactly when the \<open>time_day\<close> pattern was used. The
  list is sorted by suggested time, ascending, and among equal times by confidence,
  descending.
\<close>

theorem C8_routine_suggestion:
  fixes d :: db and dayOrDate :: dayOrDate and tasksOpt :: "task list option"
  defines "tasks \<equiv> (case tasksOpt of None \<Rightarrow> db_tasks d | Some ts \<Rightarrow> ts)"
    and "dow \<equiv> (case dayOrDate of DayNumber n \<Rightarrow> n | DateOf dt \<Rightarrow> getDay dt)"
    and "fps \<equiv> concat (map frequencyOf (db_patterns d))"
    and "tps \<equiv> concat (map timeOf (db_patterns d))"
  shows "set (generateRoutineSuggestion d dayOrDate tasksOpt)
        = (\<Union>fp \<in> set fps. set (routineSuggestion tasks tps dow fp))
    \<and> length (generateRoutineSuggestion d dayOrDate tasksOpt)
        = length (filter (\<lambda>fp. routineSuggestion tasks tps dow fp \<noteq> []) fps)
    \<and> (\<forall>fp \<in> set fps.
          (fp_taskId fp \<notin> task_id ` set tasks \<longrightarrow> routineSuggestion tasks tps dow fp = [])
          \<and> (fp_taskId fp \<in> task_id ` set tasks \<longrightarrow>
               (routineSuggestion tasks tps dow fp \<noteq> [] \<longleftrightarrow>
                 ((\<exists>dp. find (\<lambda>x. day x = dow) (preferredDays fp) = Some dp
                         \<and> 20 \<le> percentage dp)
                  \<and> (\<exists>p \<in> set tps. tp_taskId p = fp_taskId fp
                        \<and> (tp_type p = Time_day \<and> tp_dayOfWeek p = Some dow
                            \<or> tp_type p = Time))))))
    \<and> (\<forall>fp \<in> set fps. \<forall>s \<in> set (routineSuggestion tasks tps dow fp).
          (case find (\<lambda>p. tp_type p = Time_day \<and> tp_taskId p = fp_taskId fp
                          \<and> tp_dayOfWeek p = Some dow) tps of
             Some p \<Rightarrow> suggestedTime s = tp_averageTime p
                       \<and> sg_confidence s = fp_confidence fp * (12 / 10)
           | None \<Rightarrow> (\<exists>g. find (\<lambda>p. tp_type p = Time \<and> tp_taskId p = fp_taskId fp) tps = Some g
                          \<and> suggestedTime s = tp_averageTime g)
                     \<and> sg_confidence s = fp_confidence fp))
    \<and> sorted_wrt (\<lambda>a b. earlier (suggestedTime a) (suggestedTime b)
          \<or> (suggestedTime a = suggestedTime b \<and> sg_confidence b \<le> sg_confidence a))
        (generateRoutineSuggestion d dayOrDate tasksOpt)"
proof -
  have g: "generateRoutineSuggestion d dayOrDate tasksOpt =
      js_sort suggestion_cmp (concat (map (routineSuggestion tasks tps dow) fps))"
    by (simp add: generateRoutineSuggestion_def tasks_def dow_def fps_def tps_def Let_def)
  have one: "length (routineSuggestion tasks tps dow fp)
      = (if routineSuggestion tasks tps dow fp \<noteq> [] then 1 else 0)" for fp
    using routineSuggestion_length [of tasks tps dow fp]
    by (cases "routineSuggestion tasks tps dow fp") auto
  have 1: "set (generateRoutineSuggestion d dayOrDate tasksOpt)
        = (\<Union>fp \<in> set fps. set (routineSuggestion tasks tps dow fp))"
    by (simp add: g set_js_sort)
  have 2: "length (generateRoutineSuggestion d dayOrDate tasksOpt)
        = length (filter (\<lambda>fp. routineSuggestion tasks tps dow fp \<noteq> []) fps)"
    unfolding g length_js_sort by (rule length_concat_filter) (rule one)
  have 3: "fp_taskId fp \<notin> task_id ` set tasks \<longrightarrow> routineSuggestion tasks tps dow fp = []" for fp
  proof
    assume "fp_taskId fp \<notin> task_id ` set tasks"
    then have n: "find_task tasks (fp_taskId fp) = None"
      by (simp add: find_task_None)
    show "routineSuggestion tasks tps dow fp = []"
      by (cases "find (\<lambda>x. day x = dow) (preferredDays fp)")
        (simp_all add: routineSuggestion_def n)
  qed
  have 4: "fp_taskId fp \<in> task_id ` set tasks \<longrightarrow>
               (routineSuggestion tasks tps dow fp \<noteq> [] \<longleftrightarrow>
                 ((\<exists>dp. find (\<lambda>x. day x = dow) (preferredDays fp) = Some dp
                         \<and> 20 \<le> percentage dp)
                  \<and> (\<exists>p \<in> set tps. tp_taskId p = fp_taskId fp
                        \<and> (tp_type p = Time_day \<and> tp_dayOfWeek p = Some dow
                            \<or> tp_type p = Time))))" for fp
  proof
    assume "fp_taskId fp \<in> task_id ` set tasks"
    then obtain task where "find_task tasks (fp_taskId fp) = Some task"
      using find_task_None [of tasks "fp_taskId fp"] by auto
    then show "routineSuggestion tasks tps dow fp \<noteq> [] \<longleftrightarrow>
                 ((\<exists>dp. find (\<lambda>x. day x = dow) (preferredDays fp) = Some dp
                         \<and> 20 \<le> percentage dp)
                  \<and> (\<exists>p \<in> set tps. tp_taskId p = fp_taskId fp
                        \<and> (tp_type p = Time_day \<and> tp_dayOfWeek p = Some dow
                            \<or> tp_type p = Time)))"
      by (rule routineSuggestion_nonempty)
  qed
  have 5: "sorted_wrt (\<lambda>a b. earlier (suggestedTime a) (suggestedTime b)
          \<or> (suggestedTime a = suggestedTime b \<and> sg_confidence b \<le> sg_confidence a))
        (generateRoutineSuggestion d dayOrDate tasksOpt)"
    unfolding g by (rule sorted_suggestions)
  from 1 2 3 4 5 routineSuggestion_value(2) show ?thesis
    by blast
qed

theorem C8_routine_suggestion_witness:
  "generateRoutineSuggestion routine_db (DayNumber 2) (Some [t1, t2]) =
     [\<lparr>sg_taskId = ''t2'', sg_taskName = ''Run'', sg_category = ''health'',
       suggestedTime = \<lparr>hh = 7, mm = 0\<rparr>, duration = 30, sg_confidence = 2 / 5,
       sg_reason = Di_solito_il 2 \<lparr>hh = 7, mm = 0\<rparr>\<rparr>,
      \<lparr>sg_taskId = ''t1'', sg_taskName = ''Read'', sg_category = ''personal'',
       suggestedTime = \<lparr>hh = 7, mm = 30\<rparr>, duration = 30, sg_confidence = 2 / 3,
       sg_reason = Orario_abituale_alle \<lparr>hh = 7, mm = 30\<rparr>\<rparr>]
   \<and> concat (map frequencyOf (db_patterns routine_db)) = [freq_t1, freq_t2]
   \<and> concat (map timeOf (db_patterns routine_db)) =
       [time_of ''t1'' ''Read'' (7, 30), time_of ''t2'' ''Run'' (8, 0), time_t2_tuesday]
   \<and> fp_taskId freq_t1 \<in> task_id ` set [t1, t2]
   \<and> find (\<lambda>x. day x = 2) (preferredDays freq_t1)
       = Some \<lparr>day = 2, pd_count = 3, percentage = 30\<rparr>
   \<and> tp_type (time_of ''t1'' ''Read'' (7, 30)) = Time
   \<and> tp_taskId (time_of ''t1'' ''Read'' (7, 30)) = fp_taskId freq_t1
   \<and> routineSuggestion [t1, t2]
         [time_of ''t1'' ''Read'' (7, 30), time_of ''t2'' ''Run'' (8, 0), time_t2_tuesday] 2 freq_t1
       \<noteq> []
   \<and> length (generateRoutineSuggestion routine_db (DayNumber 2) (Some [t1, t2])) = 2
   \<and> sorted_wrt (\<lambda>a b. earlier (suggestedTime a) (suggestedTime b)
          \<or> (suggestedTime a = suggestedTime b \<and> sg_confidence b \<le> sg_confidence a))
        (generateRoutineSuggestion routine_db (DayNumber 2) (Some [t1, t2]))"
proof -
  have f: "concat (map frequencyOf (db_patterns routine_db)) = [freq_t1, freq_t2]"
    by (simp add: routine_db_def)
  have t: "concat (map timeOf (db_patterns routine_db)) =
       [time_of ''t1'' ''Read'' (7, 30), time_of ''t2'' ''Run'' (8, 0), time_t2_tuesday]"
    by (simp add: routine_db_def)
  have r: "generateRoutineSuggestion routine_db (DayNumber 2) (Some [t1, t2]) =
     [\<lparr>sg_taskId = ''t2'', sg_taskName = ''Run'', sg_category = ''health'',
       suggestedTime = \<lparr>hh = 7, mm = 0\<rparr>, duration = 30, sg_confidence = 2 / 5,
       sg_reason = Di_solito_il 2 \<lparr>hh = 7, mm = 0\<rparr>\<rparr>,
      \<lparr>sg_taskId = ''t1'', sg_taskName = ''Read'', sg_category = ''personal'',
       suggestedTime = \<lparr>hh = 7, mm = 30\<rparr>, duration = 30, sg_confidence = 2 / 3,
       sg_reason = Orario_abituale_alle \<lparr>hh = 7, mm = 30\<rparr>\<rparr>]"
    by (simp add: generateRoutineSuggestion_def routine_db_def routineSuggestion_def
        suggestion_cmp_def freq_t1_def freq_t2_def time_of_def time_t2_tuesday_def eval_defs)
  have c: "fp_taskId freq_t1 \<in> task_id ` set [t1, t2]"
    by (simp add: freq_t1_def t1_def)
  have p: "find (\<lambda>x. day x = 2) (preferredDays freq_t1)
       = Some \<lparr>day = 2, pd_count = 3, percentage = 30\<rparr>"
    by (simp add: freq_t1_def)
  have k: "tp_type (time_of ''t1'' ''Read'' (7, 30)) = Time
      \<and> tp_taskId (time_of ''t1'' ''Read'' (7, 30)) = fp_taskId freq_t1"
    by (simp add: time_of_def freq_t1_def)
  note C = C8_routine_suggestion [of routine_db "DayNumber 2" "Some [t1, t2]",
      unfolded f t dayOrDate.case option.case]
  have "freq_t1 \<in> set [freq_t1, freq_t2]" by simp
  from C [THEN conjunct2, THEN conjunct2, THEN conjunct1, THEN bspec, OF this,
      THEN conjunct2, THEN mp, OF c]
  have n: "routineSuggestion [t1, t2]
         [time_of ''t1'' ''Read'' (7, 30), time_of ''t2'' ''Run'' (8, 0), time_t2_tuesday] 2 freq_t1
       \<noteq> []"
    using p k by simp
  have l: "length (generateRoutineSuggestion routine_db (DayNumber 2) (Some [t1, t2])) = 2"
    by (simp add: r)
  show ?thesis
    using f t r c p k n l C [THEN conjunct2, THEN conjunct2, THEN conjunct2, THEN conjunct2]
    by (simp only: simp_thms)
qed

subsection \<open>Saving patterns\<close>

lemma savePatterns_frame:
  "db_tasks (snd (savePatterns now i ps d)) = db_tasks d
   \<and> db_history (snd (savePatterns now i ps d)) = db_history d
   \<and> db_schedule (snd (savePatterns now i ps d)) = db_schedule d
   \<and> db_specialPeriods (snd (savePatterns now i ps d)) = db_specialPeriods d
   \<and> db_periodCategories (snd (savePatterns now i ps d)) = db_periodCategories d"
  by (induction ps arbitrary: i d) (simp_all add: savePattern_def split_beta Let_def)

lemma savePatterns_bodies: "map body (fst (savePatterns now i ps d)) = map body ps"
  by (induction ps arbitrary: i d) (simp_all add: savePattern_def split_beta Let_def)

lemma analyze_gate: "length (db_history d) < 5 \<Longrightarrow> snd (analyze now d) = d"
  by (simp add: analyze_def MIN_HISTORY_FOR_PATTERNS_def)

lemma analyze_frame:
  "db_tasks (snd (analyze now d)) = db_tasks d
   \<and> db_history (snd (analyze now d)) = db_history d
   \<and> db_schedule (snd (analyze now d)) = db_schedule d
   \<and> db_specialPeriods (snd (analyze now d)) = db_specialPeriods d
   \<and> db_periodCategories (snd (analyze now d)) = db_periodCategories d"
  unfolding analyze_def Let_def
  by (simp add: split_beta savePatterns_frame)

text \<open>
  The result of \<^verbatim>\<open>analyze\<close> is determined by the tasks, the history, the schedule and the
  two settings (and, below the gate, by the stored patterns it returns).
\<close>

lemma analyze_inputs:
  assumes "db_tasks d' = db_tasks d" and "db_history d' = db_history d"
    and "db_schedule d' = db_schedule d" and "db_specialPeriods d' = db_specialPeriods d"
    and "db_periodCategories d' = db_periodCategories d"
    and "length (db_history d) < 5 \<longrightarrow> db_patterns d' = db_patterns d"
  shows "insights (fst (analyze now' d')) = insights (fst (analyze now d))"
    and "map body (patterns (fst (analyze now' d'))) = map body (patterns (fst (analyze now d)))"
  using assms(6) unfolding analyze_def Let_def assms(1-5)
  by (simp_all add: split_beta savePatterns_bodies MIN_HISTORY_FOR_PATTERNS_def)

subsection \<open>The pattern store\<close>

lemma keys_put_pattern:
  "pattern_id ` set (put_pattern p s) = insert (pattern_id p) (pattern_id ` set s)"
  by (induction s) (auto simp: insert_commute)

lemma sorted_put_pattern:
  assumes "sorted (map pattern_id s)" and "distinct (map pattern_id s)"
  shows "sorted (map pattern_id (put_pattern p s)) \<and> distinct (map pattern_id (put_pattern p s))"
  using assms
proof (induction s)
  case Nil
  then show ?case by simp
next
  case (Cons q s)
  show ?case
  proof (cases "pattern_id q = pattern_id p \<or> pattern_id p < pattern_id q")
    case True
    with Cons.prems show ?thesis by (auto simp: less_imp_le)
  next
    case False
    then have "pattern_id q < pattern_id p" by auto
    moreover have "sorted (map pattern_id (put_pattern p s))
        \<and> distinct (map pattern_id (put_pattern p s))"
      using Cons by simp
    ultimately show ?thesis
      using Cons.prems False by (auto simp: keys_put_pattern)
  qed
qed

text \<open>The body stored under a key.\<close>

lemma lookup_put_pattern:
  assumes "sorted (map pattern_id s)" and "distinct (map pattern_id s)"
  shows "map_of (map (\<lambda>q. (pattern_id q, body q)) (put_pattern p s)) k =
     (if k = pattern_id p then Some (body p)
      else map_of (map (\<lambda>q. (pattern_id q, body q)) s) k)"
  using assms
proof (induction s)
  case Nil
  then show ?case by simp
next
  case (Cons q s)
  show ?case
  proof (cases "pattern_id q = pattern_id p")
    case True
    then show ?thesis by simp
  next
    case neq: False
    show ?thesis
    proof (cases "pattern_id p < pattern_id q")
      case True
      with neq show ?thesis by simp
    next
      case False
      with neq Cons show ?thesis by auto
    qed
  qed
qed

lemma find_append:
  "find P (xs @ ys) = (case find P xs of None \<Rightarrow> find P ys | Some x \<Rightarrow> Some x)"
  by (induction xs) simp_all

lemma savePatterns_store:
  assumes "sorted (map pattern_id (db_patterns d))" and "distinct (map pattern_id (db_patterns d))"
  shows "sorted (map pattern_id (db_patterns (snd (savePatterns now i ps d))))
    \<and> distinct (map pattern_id (db_patterns (snd (savePatterns now i ps d))))
    \<and> (\<forall>k. map_of (map (\<lambda>q. (pattern_id q, body q)) (db_patterns (snd (savePatterns now i ps d)))) k
          = (case find (\<lambda>p. pattern_id p = k) (rev ps) of
               Some p \<Rightarrow> Some (body p)
             | None \<Rightarrow> map_of (map (\<lambda>q. (pattern_id q, body q)) (db_patterns d)) k))"
  using assms
proof (induction ps arbitrary: i d)
  case Nil
  then show ?case by simp
next
  case (Cons p ps)
  let ?p = "p\<lparr>updatedAt := Some (now i)\<rparr>"
  let ?d = "d\<lparr>db_patterns := put_pattern ?p (db_patterns d)\<rparr>"
  have s: "snd (savePatterns now i (p # ps) d) = snd (savePatterns now (Suc i) ps ?d)"
    by (simp add: savePattern_def split_beta Let_def)
  have id: "pattern_id ?p = pattern_id p" and b: "body ?p = body p"
    by (simp_all add: pattern_id_def)
  from sorted_put_pattern [OF Cons.prems, of ?p]
  have sd: "sorted (map pattern_id (db_patterns ?d))" "distinct (map pattern_id (db_patterns ?d))"
    by simp_all
  note ih = Cons.IH [OF sd, of "Suc i"]
  have l: "map_of (map (\<lambda>q. (pattern_id q, body q)) (put_pattern ?p (db_patterns d))) k =
     (if k = pattern_id p then Some (body p)
      else map_of (map (\<lambda>q. (pattern_id q, body q)) (db_patterns d)) k)" for k
    using lookup_put_pattern [OF Cons.prems, of ?p k] by (simp add: id b)
  show ?case
    unfolding s using ih
    by (auto simp: l find_append split: option.splits)
qed

lemma sorted_lookup_unique:
  assumes "sorted (map pattern_id s)" and "distinct (map pattern_id s)"
    and "sorted (map pattern_id s')" and "distinct (map pattern_id s')"
    and "\<And>k. map_of (map (\<lambda>q. (pattern_id q, body q)) s) k
            = map_of (map (\<lambda>q. (pattern_id q, body q)) s') k"
  shows "map body s = map body s'"
proof -
  let ?a = "map (\<lambda>q. (pattern_id q, body q)) s" and ?b = "map (\<lambda>q. (pattern_id q, body q)) s'"
  have fa: "map fst ?a = map pattern_id s" and fb: "map fst ?b = map pattern_id s'"
    by (simp_all add: comp_def)
  have "map_of ?a = map_of ?b" using assms(5) by (rule ext)
  then have e: "set ?a = set ?b"
    using assms(2,4) by (subst (asm) map_of_inject_set) (simp_all add: comp_def)
  have "inj_on fst (set ?a \<union> set ?b)"
    unfolding e [symmetric] using assms(2) distinct_map [of fst ?a] by (simp add: comp_def)
  then have "?a = ?b"
    using assms(1-4) e by (intro map_sorted_distinct_set_unique [of fst]) (simp_all add: comp_def)
  then have "map snd ?a = map snd ?b" by simp
  then show ?thesis by (simp add: comp_def)
qed

lemma analyze_store:
  "\<not> length (db_history d) < 5 \<Longrightarrow>
   snd (analyze now d) = snd (savePatterns now 0 (allPatterns_of d) d)"
  by (simp add: analyze_def allPatterns_of_def Let_def split_beta MIN_HISTORY_FOR_PATTERNS_def)

lemma allPatterns_of_inputs:
  assumes "db_tasks d' = db_tasks d" and "db_history d' = db_history d"
    and "db_specialPeriods d' = db_specialPeriods d"
    and "db_periodCategories d' = db_periodCategories d"
  shows "allPatterns_of d' = allPatterns_of d"
  unfolding allPatterns_of_def assms ..

lemma analyze_twice_store:
  assumes "sorted (map pattern_id (db_patterns d))" and "distinct (map pattern_id (db_patterns d))"
  shows "map body (db_patterns (snd (analyze now2 (snd (analyze now1 d)))))
    = map body (db_patterns (snd (analyze now1 d)))"
proof (cases "length (db_history d) < 5")
  case True
  then show ?thesis
    by (simp add: analyze_gate)
next
  case False
  let ?X = "allPatterns_of d"
  let ?d1 = "snd (savePatterns now1 0 ?X d)"
  have d1: "snd (analyze now1 d) = ?d1"
    using False by (rule analyze_store)
  have h: "db_history ?d1 = db_history d"
    using savePatterns_frame [of now1 0 ?X d] by simp
  have x: "allPatterns_of ?d1 = ?X"
    by (rule allPatterns_of_inputs) (simp_all add: savePatterns_frame)
  have d2: "snd (analyze now2 ?d1) = snd (savePatterns now2 0 ?X ?d1)"
    using analyze_store [of ?d1 now2] False unfolding h x by simp
  note s1 = savePatterns_store [OF assms, of now1 0 ?X]
  from s1 have sd: "sorted (map pattern_id (db_patterns ?d1))"
    "distinct (map pattern_id (db_patterns ?d1))" by simp_all
  note s2 = savePatterns_store [OF sd, of now2 0 ?X]
  have "map_of (map (\<lambda>q. (pattern_id q, body q)) (db_patterns (snd (savePatterns now2 0 ?X ?d1)))) k
      = map_of (map (\<lambda>q. (pattern_id q, body q)) (db_patterns ?d1)) k" for k
    using s1 [THEN conjunct2, THEN conjunct2, THEN spec, of k]
      s2 [THEN conjunct2, THEN conjunct2, THEN spec, of k]
    by (cases "find (\<lambda>p. pattern_id p = k) (rev ?X)") simp_all
  with s2 sd have "map body (db_patterns (snd (savePatterns now2 0 ?X ?d1)))
      = map body (db_patterns ?d1)"
    by (intro sorted_lookup_unique) simp_all
  then show ?thesis
    unfolding d1 d2 .
qed

lemma pattern_ids_of_bodies: "map body ps = map body qs \<Longrightarrow> map pattern_id ps = map pattern_id qs"
proof -
  assume "map body ps = map body qs"
  then have "map body_id (map body ps) = map body_id (map body qs)" by simp
  moreover have "pattern_id = (\<lambda>x. body_id (body x))"
    by (rule ext) (simp add: pattern_id_def)
  ultimately show ?thesis by (simp add: comp_def)
qed

subsection \<open>C9: two runs in succession\<close>

text \<open>
  C9: the insights and the patterns \<^verbatim>\<open>analyze\<close> returns are determined by the tasks, the
  history, the schedule, the special periods and the period categories (below the gate
  of 5 entries the patterns are the stored ones); a second run on the database the first
  run has left returns the same insights in the same order and the same patterns, one by
  one and under the same ids, and it leaves the same patterns in the store. Patterns are
  compared by their bodies: the time stamp \<^verbatim>\<open>updatedAt\<close>, which each save takes from the
  clock, is not part of the comparison.
\<close>

theorem C9_idempotent:
  "insights (fst (analyze now2 (snd (analyze now1 d)))) = insights (fst (analyze now1 d))
   \<and> map body (patterns (fst (analyze now2 (snd (analyze now1 d)))))
       = map body (patterns (fst (analyze now1 d)))
   \<and> map pattern_id (patterns (fst (analyze now2 (snd (analyze now1 d)))))
       = map pattern_id (patterns (fst (analyze now1 d)))
   \<and> (sorted (map pattern_id (db_patterns d)) \<and> distinct (map pattern_id (db_patterns d)) \<longrightarrow>
        map body (db_patterns (snd (analyze now2 (snd (analyze now1 d)))))
          = map body (db_patterns (snd (analyze now1 d))))
   \<and> (db_tasks d' = db_tasks d \<and> db_history d' = db_history d
        \<and> db_schedule d' = db_schedule d \<and> db_specialPeriods d' = db_specialPeriods d
        \<and> db_periodCategories d' = db_periodCategories d
        \<and> (length (db_history d) < 5 \<longrightarrow> db_patterns d' = db_patterns d) \<longrightarrow>
        insights (fst (analyze now2 d')) = insights (fst (analyze now1 d))
        \<and> map body (patterns (fst (analyze now2 d'))) = map body (patterns (fst (analyze now1 d))))"
proof -
  let ?d1 = "snd (analyze now1 d)"
  have g: "length (db_history d) < 5 \<longrightarrow> db_patterns ?d1 = db_patterns d"
    using analyze_gate [of d now1] by simp
  note f = analyze_frame [of now1 d]
  have 1: "insights (fst (analyze now2 ?d1)) = insights (fst (analyze now1 d))"
    using f g by (intro analyze_inputs(1)) simp_all
  have 2: "map body (patterns (fst (analyze now2 ?d1))) = map body (patterns (fst (analyze now1 d)))"
    using f g by (intro analyze_inputs(2)) simp_all
  show ?thesis
  proof (intro conjI impI)
    show "insights (fst (analyze now2 ?d1)) = insights (fst (analyze now1 d))"
      by (rule 1)
    show "map body (patterns (fst (analyze now2 ?d1))) = map body (patterns (fst (analyze now1 d)))"
      by (rule 2)
    show "map pattern_id (patterns (fst (analyze now2 ?d1)))
        = map pattern_id (patterns (fst (analyze now1 d)))"
      by (rule pattern_ids_of_bodies [OF 2])
  next
    assume "sorted (map pattern_id (db_patterns d)) \<and> distinct (map pattern_id (db_patterns d))"
    then show "map body (db_patterns (snd (analyze now2 ?d1))) = map body (db_patterns ?d1)"
      using analyze_twice_store [of d now2 now1] by simp
  next
    assume a: "db_tasks d' = db_tasks d \<and> db_history d' = db_history d
        \<and> db_schedule d' = db_schedule d \<and> db_specialPeriods d' = db_specialPeriods d
        \<and> db_periodCategories d' = db_periodCategories d
        \<and> (length (db_history d) < 5 \<longrightarrow> db_patterns d' = db_patterns d)"
    then show "insights (fst (analyze now2 d')) = insights (fst (analyze now1 d))"
      by (intro analyze_inputs(1)) simp_all
    from a show "map body (patterns (fst (analyze now2 d')))
        = map body (patterns (fst (analyze now1 d)))"
      by (intro analyze_inputs(2)) simp_all
  qed
qed

lemma analyze_result:
  "\<not> length (db_history d) < 5 \<Longrightarrow>
   fst (analyze now d) =
     \<lparr>insights = take 10 (js_sort (\<lambda>a b. priority b - priority a) (insights_of d)),
      patterns = fst (savePatterns now 0 (allPatterns_of d) d)\<rparr>"
  by (simp add: analyze_def allPatterns_of_def insights_of_def Let_def split_beta
      MIN_HISTORY_FOR_PATTERNS_def)

lemma four_days_sep:
  "separateHistoryByPeriods four_days [] [] =
     \<lparr>normalHistory = four_days, periodHistory = [], periodBreakdown = []\<rparr>"
  by (simp add: separateHistoryByPeriods_def four_days_def three_days_def)

theorem C9_idempotent_witness:
  "length (db_history four_days_db) = 12
   \<and> length (allPatterns_of four_days_db) = 14
   \<and> insights (fst (analyze (\<lambda>i. 1000 + i) four_days_db)) =
       [\<lparr>i_type = Insight, i_message = Fascia_piu_produttiva 9 11,
         i_taskId = None, priority = 6, actionable = False, i_action = None\<rparr>,
        \<lparr>i_type = Pattern, i_message = Giorni_preferiti ''Read'' [1] 4,
         i_taskId = Some ''t1'', priority = 16 / 15, actionable = False, i_action = None\<rparr>,
        \<lparr>i_type = Pattern, i_message = Giorni_preferiti ''Run'' [1] 4,
         i_taskId = Some ''t2'', priority = 16 / 15, actionable = False, i_action = None\<rparr>,
        \<lparr>i_type = Pattern, i_message = Giorni_preferiti ''Cook'' [1] 4,
         i_taskId = Some ''t3'', priority = 16 / 15, actionable = False, i_action = None\<rparr>]
   \<and> map body (patterns (fst (analyze (\<lambda>i. 1000 + i) four_days_db)))
       = map body (allPatterns_of four_days_db)
   \<and> db_patterns four_days_db = []
   \<and> insights (fst (analyze (\<lambda>i. 2000 + i) (snd (analyze (\<lambda>i. 1000 + i) four_days_db))))
       = insights (fst (analyze (\<lambda>i. 1000 + i) four_days_db))
   \<and> map body (patterns (fst (analyze (\<lambda>i. 2000 + i)
                                  (snd (analyze (\<lambda>i. 1000 + i) four_days_db)))))
       = map body (patterns (fst (analyze (\<lambda>i. 1000 + i) four_days_db)))
   \<and> map body (db_patterns (snd (analyze (\<lambda>i. 2000 + i)
                                     (snd (analyze (\<lambda>i. 1000 + i) four_days_db)))))
       = map body (db_patterns (snd (analyze (\<lambda>i. 1000 + i) four_days_db)))
   \<and> insights (fst (analyze (\<lambda>i. 2000 + i)
         (four_days_db\<lparr>db_patterns := [\<lparr>body = DurationP overestimated, updatedAt = Some 5\<rparr>]\<rparr>)))
       = insights (fst (analyze (\<lambda>i. 1000 + i) four_days_db))"
proof -
  have h: "length (db_history four_days_db) = 12"
    by (simp add: four_days_db_def four_days_def three_days_def)
  have p: "length (allPatterns_of four_days_db) = 14"
    apply (simp add: allPatterns_of_def four_days_db_def four_days_sep)
    apply (simp add: four_days_def three_days_def time_defs duration_defs frequency_defs
        sequence_defs eval_defs)
    done
  have i: "insights_of four_days_db =
       [\<lparr>i_type = Pattern, i_message = Giorni_preferiti ''Read'' [1] 4,
         i_taskId = Some ''t1'', priority = 16 / 15, actionable = False, i_action = None\<rparr>,
        \<lparr>i_type = Pattern, i_message = Giorni_preferiti ''Run'' [1] 4,
         i_taskId = Some ''t2'', priority = 16 / 15, actionable = False, i_action = None\<rparr>,
        \<lparr>i_type = Pattern, i_message = Giorni_preferiti ''Cook'' [1] 4,
         i_taskId = Some ''t3'', priority = 16 / 15, actionable = False, i_action = None\<rparr>,
        \<lparr>i_type = Insight, i_message = Fascia_piu_produttiva 9 11,
         i_taskId = None, priority = 6, actionable = False, i_action = None\<rparr>]"
    apply (simp add: insights_of_def four_days_db_def four_days_sep)
    apply (simp add: four_days_def three_days_def time_defs duration_defs frequency_defs
        sequence_defs eval_defs
        generateTimeInsights_def timeInsight_def generateDurationInsights_def durationInsight_def
        generateFrequencyInsights_def frequencyInsight_def generateSequenceInsights_def
        generateCompletionInsights_def completionInsight_def analyzeCompletionPatterns_def
        bump_def bestBucket_def generateOptimizationInsights_def analyzeScheduleGaps_def
        gapsByDay_def analyzeProductivityByHour_def analyzeWeekdayVsWeekend_def)
    done
  have r: "fst (analyze (\<lambda>i. 1000 + i) four_days_db) =
     \<lparr>insights = take 10 (js_sort (\<lambda>a b. priority b - priority a) (insights_of four_days_db)),
      patterns = fst (savePatterns (\<lambda>i. 1000 + i) 0 (allPatterns_of four_days_db) four_days_db)\<rparr>"
    by (rule analyze_result) (simp add: h)
  have s: "insights (fst (analyze (\<lambda>i. 1000 + i) four_days_db)) =
       [\<lparr>i_type = Insight, i_message = Fascia_piu_produttiva 9 11,
         i_taskId = None, priority = 6, actionable = False, i_action = None\<rparr>,
        \<lparr>i_type = Pattern, i_message = Giorni_preferiti ''Read'' [1] 4,
         i_taskId = Some ''t1'', priority = 16 / 15, actionable = False, i_action = None\<rparr>,
        \<lparr>i_type = Pattern, i_message = Giorni_preferiti ''Run'' [1] 4,
         i_taskId = Some ''t2'', priority = 16 / 15, actionable = False, i_action = None\<rparr>,
        \<lparr>i_type = Pattern, i_message = Giorni_preferiti ''Cook'' [1] 4,
         i_taskId = Some ''t3'', priority = 16 / 15, actionable = False, i_action = None\<rparr>]"
    unfolding r i by (simp add: js_sort_def)
  have b: "map body (patterns (fst (analyze (\<lambda>i. 1000 + i) four_days_db)))
       = map body (allPatterns_of four_days_db)"
    unfolding r by (simp add: savePatterns_bodies)
  have e: "db_patterns four_days_db = []"
    by (simp add: four_days_db_def)
  note C = C9_idempotent [of "\<lambda>i. 2000 + i" "\<lambda>i. 1000 + i" four_days_db
      "four_days_db\<lparr>db_patterns := [\<lparr>body = DurationP overestimated, updatedAt = Some 5\<rparr>]\<rparr>"]
  show ?thesis
    using C h p s b e by simp
qed

text \<open>
  Twenty-five transitions between tasks of the catalog, each observed three times,
  yield exactly 20 sequence patterns.
\<close>

lemma sequence_cap_example:
  "length (sequenceMap letter_history) = 25
   \<and> map sp_count (analyzeSequencePatterns letter_history letter_tasks) = replicate 20 3"
proof -
  have "length (sequenceMap letter_history) = 25"
    by (simp add: letter_history_def letter_day_def sequenceMap_def sortedHistory_def
        sequenceStep_def eval_defs)
  moreover have "map sp_count (analyzeSequencePatterns letter_history letter_tasks) = replicate 20 3"
    by (simp add: letter_history_def letter_day_def letter_tasks_def sequence_defs eval_defs
        numeral_eq_Suc)
  ultimately show ?thesis by simp
qed

end
